theory Spec2Isabelle
  imports Main "HOL-Library.Sublist"
begin

section \<open>Python strings\<close>

text \<open>
  A Python \<open>str\<close> is a sequence of Unicode code points, and \<open>len\<close> counts code points,
  so a string is modelled as a list of code points. The catalogs of
  \<^verbatim>\<open>src/document_tagger.py\<close> are Chinese; they are written here by code point
  (\<open>0x9879, 0x76EE\<close> is U+9879 U+76EE, the word for "project"). ASCII text is written as
  an Isabelle string and converted by \<open>asc\<close>.
\<close>

type_synonym ustr = "int list"

definition asc :: "string \<Rightarrow> ustr" where
  "asc s = map of_char s"

text \<open>
  What Python takes from the Unicode character database, and the optional \<open>jieba\<close>
  package, are not code of the repository. They are the fields of an environment that
  every operation receives:
  \<^item> \<open>uni_isspace\<close>: the whitespace test of \<open>str.strip()\<close>, \<open>str.split()\<close>,
    \<open>str.isspace()\<close> and of \<open>\s\<close> in a \<open>re\<close> pattern;
  \<^item> \<open>uni_isalnum\<close>: \<open>str.isalnum()\<close> on one character (\<open>\w\<close> is this or \<open>_\<close>);
  \<^item> \<open>uni_isdecimal\<close>: the decimal digits, \<open>\d\<close> in a \<open>re\<close> pattern;
  \<^item> \<open>uni_isdigit\<close>: \<open>str.isdigit()\<close> on one character;
  \<^item> \<open>uni_lower\<close>: \<open>str.lower()\<close>;
  \<^item> \<open>extract_tags\<close>: \<open>jieba.analyse.extract_tags(text, topK)\<close> when the import of
    \<open>jieba\<close> succeeded (\<open>HAS_JIEBA\<close>), \<open>None\<close> when it failed.
\<close>

record pyenv =
  uni_isspace :: "int \<Rightarrow> bool"
  uni_isalnum :: "int \<Rightarrow> bool"
  uni_isdecimal :: "int \<Rightarrow> bool"
  uni_isdigit :: "int \<Rightarrow> bool"
  uni_lower :: "ustr \<Rightarrow> ustr"
  extract_tags :: "(ustr \<Rightarrow> nat \<Rightarrow> ustr list) option"

definition HAS_JIEBA :: "pyenv \<Rightarrow> bool" where
  "HAS_JIEBA E = (extract_tags E \<noteq> None)"

text \<open>
  A concrete environment, for evaluating the operations on concrete documents. Its
  whitespace set is the one of CPython. Its other tables are those of CPython on ASCII
  and on the CJK ideographs U+4E00 to U+9FFF (letters without case), the alphabet of the
  documents evaluated below; every other code point is taken as neither alphanumeric nor
  a digit, and as its own lower case.
\<close>

definition cpy_isspace :: "int \<Rightarrow> bool" where
  "cpy_isspace c = ((9 \<le> c \<and> c \<le> 13) \<or> (28 \<le> c \<and> c \<le> 32) \<or> c = 0x85 \<or> c = 0xA0 \<or>
     c = 0x1680 \<or> (0x2000 \<le> c \<and> c \<le> 0x200A) \<or> c = 0x2028 \<or> c = 0x2029 \<or>
     c = 0x202F \<or> c = 0x205F \<or> c = 0x3000)"

definition is_cjk :: "int \<Rightarrow> bool" where
  "is_cjk c = (0x4E00 \<le> c \<and> c \<le> 0x9FFF)"

definition cpy_isdigit :: "int \<Rightarrow> bool" where
  "cpy_isdigit c = (48 \<le> c \<and> c \<le> 57)"

definition cpy_isalnum :: "int \<Rightarrow> bool" where
  "cpy_isalnum c = (cpy_isdigit c \<or> (65 \<le> c \<and> c \<le> 90) \<or> (97 \<le> c \<and> c \<le> 122) \<or> is_cjk c)"

definition cpy_lower :: "ustr \<Rightarrow> ustr" where
  "cpy_lower s = map (\<lambda>c. if 65 \<le> c \<and> c \<le> 90 then c + 32 else c) s"

definition cpython :: "(ustr \<Rightarrow> nat \<Rightarrow> ustr list) option \<Rightarrow> pyenv" where
  "cpython jieba = \<lparr> uni_isspace = cpy_isspace, uni_isalnum = cpy_isalnum,
     uni_isdecimal = cpy_isdigit, uni_isdigit = cpy_isdigit, uni_lower = cpy_lower,
     extract_tags = jieba \<rparr>"

subsection \<open>String methods\<close>

text \<open>\<open>sub in s\<close>: \<open>sub\<close> occurs in \<open>s\<close> as a contiguous run.\<close>

fun py_in :: "ustr \<Rightarrow> ustr \<Rightarrow> bool" where
  "py_in sub [] = (sub = [])"
| "py_in sub (c # cs) = (prefix sub (c # cs) \<or> py_in sub cs)"

text \<open>
  \<open>s.count(sub)\<close>: the number of non-overlapping occurrences, found from left to right.
  \<open>k\<close> is the number of characters still covered by the occurrence found last. An empty
  \<open>sub\<close> occurs \<open>len(s) + 1\<close> times.
\<close>

fun count_from :: "ustr \<Rightarrow> nat \<Rightarrow> ustr \<Rightarrow> nat" where
  "count_from sub k [] = 0"
| "count_from sub k (c # cs) =
     (if 0 < k then count_from sub (k - 1) cs
      else if prefix sub (c # cs) then Suc (count_from sub (length sub - 1) cs)
      else count_from sub 0 cs)"

definition py_count :: "ustr \<Rightarrow> ustr \<Rightarrow> nat" where
  "py_count s sub = (if sub = [] then Suc (length s) else count_from sub 0 s)"

text \<open>\<open>s.find(sub)\<close>: the position of the first occurrence, \<open>None\<close> for Python's -1.\<close>

fun find_from :: "ustr \<Rightarrow> nat \<Rightarrow> ustr \<Rightarrow> nat option" where
  "find_from sub i [] = (if sub = [] then Some i else None)"
| "find_from sub i (c # cs) = (if prefix sub (c # cs) then Some i else find_from sub (Suc i) cs)"

definition py_find :: "ustr \<Rightarrow> ustr \<Rightarrow> nat option" where
  "py_find s sub = find_from sub 0 s"

text \<open>\<open>s.strip(chars)\<close> and \<open>s.strip()\<close>.\<close>

definition strip_chars :: "(int \<Rightarrow> bool) \<Rightarrow> ustr \<Rightarrow> ustr" where
  "strip_chars P s = rev (dropWhile P (rev (dropWhile P s)))"

definition py_strip :: "pyenv \<Rightarrow> ustr \<Rightarrow> ustr" where
  "py_strip E s = strip_chars (uni_isspace E) s"

text \<open>\<open>s.isdigit()\<close> and \<open>s.isspace()\<close>: false on the empty string.\<close>

definition py_isdigit :: "pyenv \<Rightarrow> ustr \<Rightarrow> bool" where
  "py_isdigit E s = (s \<noteq> [] \<and> list_all (uni_isdigit E) s)"

definition py_isspace :: "pyenv \<Rightarrow> ustr \<Rightarrow> bool" where
  "py_isspace E s = (s \<noteq> [] \<and> list_all (uni_isspace E) s)"

text \<open>
  \<open>s.split()\<close>: the maximal runs of characters that are not whitespace. \<open>cur\<close> is the
  run being read.
\<close>

fun split_runs :: "(int \<Rightarrow> bool) \<Rightarrow> ustr \<Rightarrow> ustr \<Rightarrow> ustr list" where
  "split_runs P cur [] = (if cur = [] then [] else [cur])"
| "split_runs P cur (c # cs) =
     (if P c then (if cur = [] then split_runs P [] cs else cur # split_runs P [] cs)
      else split_runs P (cur @ [c]) cs)"

definition py_split :: "pyenv \<Rightarrow> ustr \<Rightarrow> ustr list" where
  "py_split E s = split_runs (uni_isspace E) [] s"

text \<open>\<open>s.split(sep)\<close> for a separator of one character: empty pieces are kept.\<close>

fun split_on :: "int \<Rightarrow> ustr \<Rightarrow> ustr \<Rightarrow> ustr list" where
  "split_on sep cur [] = [cur]"
| "split_on sep cur (c # cs) =
     (if c = sep then cur # split_on sep [] cs else split_on sep (cur @ [c]) cs)"

text \<open>\<open>s.replace(old, new)\<close> for \<open>old\<close> of one character.\<close>

definition replace_char :: "int \<Rightarrow> ustr \<Rightarrow> ustr \<Rightarrow> ustr" where
  "replace_char old new s = concat (map (\<lambda>c. if c = old then new else [c]) s)"

text \<open>\<open>sep.join(parts)\<close>.\<close>

fun py_join :: "ustr \<Rightarrow> ustr list \<Rightarrow> ustr" where
  "py_join sep [] = []"
| "py_join sep [p] = p"
| "py_join sep (p # q # ps) = p @ sep @ py_join sep (q # ps)"

section \<open>Regular expressions\<close>

text \<open>
  The patterns of the source are sequences of literals and of greedy repetitions of one
  character class, with at most one group. A pattern is three such sequences: what
  precedes the group, the group, what follows it; a pattern without a group has the whole
  pattern as its group, which is what \<open>re.findall\<close> returns then.

  \<open>re\<close> matches by backtracking. \<open>match_seq\<close> gives, for the text at the current
  position, the number of characters taken by every way of matching the sequence, in the
  order in which the backtracking tries them: a greedy repetition tries the longest run
  first. The first entry is the match that \<open>re\<close> finds.
\<close>

datatype atom = Lit ustr | Rep "int \<Rightarrow> bool" nat "nat option"

type_synonym pattern = "atom list \<times> atom list \<times> atom list"

definition rep_counts :: "(int \<Rightarrow> bool) \<Rightarrow> nat \<Rightarrow> nat option \<Rightarrow> ustr \<Rightarrow> nat list" where
  "rep_counts P lo hi s =
     (let k = length (takeWhile P s);
          m = (case hi of None \<Rightarrow> k | Some h \<Rightarrow> min k h)
      in rev [lo..<Suc m])"

fun match_atom :: "atom \<Rightarrow> ustr \<Rightarrow> nat list" where
  "match_atom (Lit l) s = (if prefix l s then [length l] else [])"
| "match_atom (Rep P lo hi) s = rep_counts P lo hi s"

fun match_seq :: "atom list \<Rightarrow> ustr \<Rightarrow> nat list" where
  "match_seq [] s = [0]"
| "match_seq (a # as) s =
     concat (map (\<lambda>n. map (\<lambda>r. n + r) (match_seq as (drop n s))) (match_atom a s))"

text \<open>
  The match of a pattern that starts at the current position, if any: the text of the
  group and the number of characters of the whole match.
\<close>

definition match_at :: "pattern \<Rightarrow> ustr \<Rightarrow> (ustr \<times> nat) option" where
  "match_at p s =
     (case p of (pre, grp, post) \<Rightarrow>
        (case concat (map (\<lambda>i. concat (map (\<lambda>g.
                 map (\<lambda>j. (take g (drop i s), i + g + j)) (match_seq post (drop (i + g) s)))
               (match_seq grp (drop i s)))) (match_seq pre s)) of
           [] \<Rightarrow> None
         | m # _ \<Rightarrow> Some m))"

text \<open>\<open>re.search(p, s)\<close>: the group of the leftmost match.\<close>

fun re_search :: "pattern \<Rightarrow> ustr \<Rightarrow> ustr option" where
  "re_search p [] = map_option fst (match_at p [])"
| "re_search p (c # cs) =
     (case match_at p (c # cs) of Some (g, n) \<Rightarrow> Some g | None \<Rightarrow> re_search p cs)"

text \<open>
  \<open>re.findall(p, s)\<close> and \<open>re.sub(p, repl, s)\<close>: the matches from left to right, none
  overlapping another. \<open>k\<close> is the number of characters still covered by the match found
  last. No pattern of the source matches the empty string; for one that did, the scan
  goes on at the next character.
\<close>

fun findall_from :: "pattern \<Rightarrow> nat \<Rightarrow> ustr \<Rightarrow> ustr list" where
  "findall_from p k [] =
     (if k = 0 then (case match_at p [] of None \<Rightarrow> [] | Some (g, n) \<Rightarrow> [g]) else [])"
| "findall_from p k (c # cs) =
     (if 0 < k then findall_from p (k - 1) cs
      else case match_at p (c # cs) of
             None \<Rightarrow> findall_from p 0 cs
           | Some (g, n) \<Rightarrow> g # findall_from p (n - 1) cs)"

definition re_findall :: "pattern \<Rightarrow> ustr \<Rightarrow> ustr list" where
  "re_findall p s = findall_from p 0 s"

fun sub_from :: "pattern \<Rightarrow> ustr \<Rightarrow> nat \<Rightarrow> ustr \<Rightarrow> ustr" where
  "sub_from p repl k [] =
     (if k = 0 then (case match_at p [] of None \<Rightarrow> [] | Some (g, n) \<Rightarrow> repl) else [])"
| "sub_from p repl k (c # cs) =
     (if 0 < k then sub_from p repl (k - 1) cs
      else case match_at p (c # cs) of
             None \<Rightarrow> c # sub_from p repl 0 cs
           | Some (g, n) \<Rightarrow>
               (if 0 < n then repl @ sub_from p repl (n - 1) cs
                else repl @ c # sub_from p repl 0 cs))"

definition re_sub :: "pattern \<Rightarrow> ustr \<Rightarrow> ustr \<Rightarrow> ustr" where
  "re_sub p repl s = sub_from p repl 0 s"

text \<open>The classes \<open>\s\<close>, \<open>\w\<close> and \<open>\d\<close>.\<close>

definition re_space :: "pyenv \<Rightarrow> int \<Rightarrow> bool" where
  "re_space E c = uni_isspace E c"

definition re_word :: "pyenv \<Rightarrow> int \<Rightarrow> bool" where
  "re_word E c = (uni_isalnum E c \<or> c = 0x5F)"

definition re_digit :: "pyenv \<Rightarrow> int \<Rightarrow> bool" where
  "re_digit E c = uni_isdecimal E c"

section \<open>KeywordExtractor\<close>

text \<open>\<^verbatim>\<open>_get_keywords_count\<close> (lines 355 to 377). The length is a \<open>len\<close>, so
  \<open>int(text_length / 1000)\<close> is the quotient of the division by 1000: the float
  division is exact enough below 27000, and from there on the minimum is 30.\<close>

definition get_keywords_count :: "nat \<Rightarrow> nat" where
  "get_keywords_count text_length =
     (if text_length < 200 then 2
      else if text_length < 500 then 3
      else if text_length < 1000 then 5
      else if text_length < 2000 then 8
      else if text_length < 3000 then 10
      else if text_length < 5000 then 12
      else if text_length < 8000 then 15
      else if text_length < 12000 then 18
      else if text_length < 20000 then 22
      else min (text_length div 1000 + 3) 30)"

text \<open>
  The character class of line 398. The pattern is two adjacent string literals (the two
  apostrophes in the middle end the first and start the second), so the class holds the
  full-width punctuation, the ASCII double quote, the brackets and \<open>\s\<close>, and no
  apostrophe.
\<close>

definition cn_separator :: "pyenv \<Rightarrow> int \<Rightarrow> bool" where
  "cn_separator E c =
     (c \<in> set ([0xFF0C, 0x3002, 0xFF01, 0xFF1F, 0xFF1B, 0xFF1A, 0x22, 0x22, 0xFF08, 0xFF09,
                 0x3010, 0x3011] @ asc ''[]{}<>'' @ [0x300A, 0x300B, 0x3001])
      \<or> re_space E c)"

text \<open>The character class of line 402.\<close>

definition en_separator :: "pyenv \<Rightarrow> int \<Rightarrow> bool" where
  "en_separator E c =
     (c \<in> set (asc ''.,!?;:'' @ [0x22, 0x27] @ asc ''()[]{}<>'') \<or> re_space E c)"

text \<open>\<open>string.punctuation\<close>, and the characters stripped on line 415.\<close>

definition string_punctuation :: ustr where
  "string_punctuation = [33..47] @ [58..64] @ [91..96] @ [123..126]"

definition strip_word :: "ustr \<Rightarrow> ustr" where
  "strip_word w = strip_chars (\<lambda>c. c \<in> set (string_punctuation @ [32, 9, 10])) w"

text \<open>A \<open>Counter\<close> keeps its keys in the order of their first insertion.\<close>

type_synonym counter = "(ustr \<times> nat) list"

fun counter_incr :: "counter \<Rightarrow> ustr \<Rightarrow> counter" where
  "counter_incr [] w = [(w, 1)]"
| "counter_incr ((k, c) # m) w =
     (if k = w then (k, c + 1) # m else (k, c) # counter_incr m w)"

text \<open>
  \<open>Counter.most_common()\<close> is \<open>sorted(items, key=count, reverse=True)\<close>, and
  \<open>most_common(n)\<close> its first \<open>n\<close> entries. Python's sort is stable, also when
  reversed: entries of equal count keep their order.
\<close>

definition most_common :: "counter \<Rightarrow> counter" where
  "most_common m = sort_key (\<lambda>(w, c). - int c) m"

definition absolute_strict_verify_word_in_text :: "ustr \<Rightarrow> ustr \<Rightarrow> bool" where
  "absolute_strict_verify_word_in_text word text = py_in word text"

definition web_words :: "ustr list" where
  "web_words = [asc ''html'', asc ''http'', asc ''https'', asc ''www'']"

definition common_words :: "ustr list" where
  "common_words =
   [[0x7684], [0x4E86], [0x5728], [0x548C], [0x4E0E], [0x4E3A], [0x662F], [0x6709], [0x53CA],
    [0x7B49], [0x53EF, 0x4EE5], [0x8FDB, 0x884C], [0x901A, 0x8FC7], [0x6216, 0x8005],
    [0x5982, 0x679C], [0x4F46, 0x662F], [0x56E0, 0x4E3A], [0x6240, 0x4EE5], [0x8FD9, 0x4E2A],
    [0x90A3, 0x4E2A], [0x6211, 0x4EEC], [0x4ED6, 0x4EEC], [0x5979, 0x4EEC], [0x5B83, 0x4EEC],
    [0x4E4B, 0x540E], [0x4E4B, 0x524D], [0x4EC0, 0x4E48], [0x600E, 0x4E48], [0x54EA, 0x91CC],
    [0x4EC0, 0x4E48, 0x65F6, 0x5019], [0x4E3A, 0x4EC0, 0x4E48], [0x4E00, 0x4E2A],
    [0x4E00, 0x79CD], [0x4E00, 0x4E9B], [0x6240, 0x6709], [0x6BCF, 0x4E2A], [0x6240, 0x4EE5],
    [0x56E0, 0x6B64], [0x7136, 0x540E], [0x73B0, 0x5728], [0x5DF2, 0x7ECF], [0x4ECD, 0x7136],
    [0x53EA, 0x662F], [0x4E5F, 0x662F], [0x8FD8, 0x662F], [0x6216, 0x662F], [0x5C31, 0x662F],
    [0x4E0D, 0x662F], [0x6CA1, 0x6709], [0x8FD9, 0x4E9B], [0x90A3, 0x4E9B]]"

text \<open>The three candidate lists of lines 398 to 409.\<close>

definition candidate_words :: "pyenv \<Rightarrow> ustr \<Rightarrow> ustr list" where
  "candidate_words E text =
     (let text_clean = re_sub ([], [Rep (cn_separator E) 1 None], []) [32] text;
          words1 = py_split E text_clean;
          text_clean2 = re_sub ([], [Rep (en_separator E) 1 None], []) [32] text;
          words2 = py_split E text_clean2;
          chinese_words = re_findall ([], [Rep is_cjk 2 (Some 8)], []) text
      in words1 @ words2 @ chinese_words)"

text \<open>The filter of lines 418 to 422, on a stripped word.\<close>

definition basic_filter :: "pyenv \<Rightarrow> ustr \<Rightarrow> bool" where
  "basic_filter E word =
     (2 \<le> length word \<and> length word \<le> 8 \<and> \<not> py_isdigit E word \<and> py_strip E word \<noteq> [] \<and>
      \<not> py_isspace E word \<and> uni_lower E word \<notin> set web_words)"

text \<open>The counting loop of lines 414 to 426.\<close>

fun count_words :: "pyenv \<Rightarrow> ustr \<Rightarrow> counter \<Rightarrow> ustr list \<Rightarrow> counter" where
  "count_words E text word_count [] = word_count"
| "count_words E text word_count (w # ws) =
     (let word = strip_word w
      in if basic_filter E word \<and> absolute_strict_verify_word_in_text word text
         then count_words E text (counter_incr word_count word) ws
         else count_words E text word_count ws)"

text \<open>
  The words that the loop counts, in the order in which line 426 counts them: the
  candidates of the three lists, stripped, that pass the filter and the verification.
  The frequency of a word is the number of times it is counted.
\<close>

definition counted_words :: "pyenv \<Rightarrow> ustr \<Rightarrow> ustr list" where
  "counted_words E text =
     filter (\<lambda>word. basic_filter E word \<and> absolute_strict_verify_word_in_text word text)
       (map strip_word (candidate_words E text))"

text \<open>The selection loop of lines 433 to 438.\<close>

fun select_keywords :: "nat \<Rightarrow> ustr list \<Rightarrow> counter \<Rightarrow> ustr list" where
  "select_keywords num_keywords result_keywords [] = result_keywords"
| "select_keywords num_keywords result_keywords ((word, count) # rest) =
     (if word \<notin> set common_words \<and> 1 \<le> count \<and> length result_keywords < num_keywords
      then select_keywords num_keywords (result_keywords @ [word]) rest
      else select_keywords num_keywords result_keywords rest)"

definition extract_verified_keywords_from_text :: "pyenv \<Rightarrow> ustr \<Rightarrow> nat \<Rightarrow> ustr list" where
  "extract_verified_keywords_from_text E text num_keywords =
     select_keywords num_keywords []
       (most_common (count_words E text [] (candidate_words E text)))"

definition extract_keywords :: "pyenv \<Rightarrow> ustr \<Rightarrow> ustr list" where
  "extract_keywords E text =
     (if py_strip E text = [] then []
      else extract_verified_keywords_from_text E text (get_keywords_count (length text)))"
section \<open>ProjectClassifier\<close>

text \<open>
  The project names that the classifier returns as literals: the projects of the
  "super-brand centre", of finance, of human resources, of organisation, of knowledge
  management, of the technical platform and of business operation, the placeholder
  "unknown project", and the suffix "project" (U+9879 U+76EE).
\<close>

definition project_superbrand :: ustr where
  "project_superbrand = [0x8D85, 0x54C1, 0x4E2D, 0x5FC3, 0x9879, 0x76EE]"

definition project_finance :: ustr where
  "project_finance = [0x8D22, 0x52A1, 0x7BA1, 0x7406, 0x9879, 0x76EE]"

definition project_hr :: ustr where
  "project_hr = [0x4EBA, 0x529B, 0x8D44, 0x6E90, 0x9879, 0x76EE]"

definition project_org :: ustr where
  "project_org = [0x7EC4, 0x7EC7, 0x7BA1, 0x7406, 0x9879, 0x76EE]"

definition project_knowledge :: ustr where
  "project_knowledge = [0x77E5, 0x8BC6, 0x7BA1, 0x7406, 0x9879, 0x76EE]"

definition project_tech :: ustr where
  "project_tech = [0x6280, 0x672F, 0x5E73, 0x53F0, 0x9879, 0x76EE]"

definition project_business :: ustr where
  "project_business = [0x4E1A, 0x52A1, 0x8FD0, 0x8425, 0x9879, 0x76EE]"

definition project_unknown :: ustr where
  "project_unknown = [0x672A, 0x77E5, 0x9879, 0x76EE]"

definition suffix_project :: ustr where
  "suffix_project = [0x9879, 0x76EE]"

text \<open>\<open>any(word in s for word in words)\<close>.\<close>

definition any_in :: "ustr list \<Rightarrow> ustr \<Rightarrow> bool" where
  "any_in words s = list_ex (\<lambda>word. py_in word s) words"

text \<open>The word lists of the title checks in \<^verbatim>\<open>identify_project\<close> (lines 115 to 129).\<close>

definition title_superbrand :: "ustr list" where
  "title_superbrand =
     [[0x8D85, 0x54C1, 0x4E2D, 0x5FC3], [0x8D85, 0x54C1]]"

definition title_finance :: "ustr list" where
  "title_finance =
     [[0x8D22, 0x52A1], [0x7ED3, 0x7B97], [0x4E1A, 0x7EE9], [0x6BDB, 0x5229]]"

definition title_hr :: "ustr list" where
  "title_hr =
     [[0x65B0, 0x4EBA], [0x5165, 0x804C], [0x57F9, 0x8BAD]]"

definition title_org :: "ustr list" where
  "title_org =
     [[0x90E8, 0x95E8], [0x7EC4, 0x7EC7], [0x56E2, 0x961F], [0x804C, 0x8D23]]"

definition title_merchant :: "ustr list" where
  "title_merchant =
     [[0x5546, 0x5BB6], [0x661F, 0x9009], [0x9065, 0x671B, 0x661F, 0x9009]]"

definition title_knowledge :: "ustr list" where
  "title_knowledge =
     [[0x6587, 0x6863], [0x5206, 0x7C7B], [0x6536, 0x96C6], [0x77E5, 0x8BC6]]"

text \<open>
  The word lists of the title checks in \<^verbatim>\<open>_infer_project_from_content\<close> (lines 269 to
  281). The third one has a word that line 119 does not have: \<open>onboard\<close>.
\<close>

definition infer_title_superbrand :: "ustr list" where
  "infer_title_superbrand =
     [[0x8D85, 0x54C1, 0x4E2D, 0x5FC3], [0x8D85, 0x54C1]]"

definition infer_title_finance :: "ustr list" where
  "infer_title_finance =
     [[0x8D22, 0x52A1], [0x7ED3, 0x7B97], [0x4E1A, 0x7EE9], [0x6BDB, 0x5229]]"

definition infer_title_hr :: "ustr list" where
  "infer_title_hr =
     [[0x65B0, 0x4EBA], [0x5165, 0x804C], [0x57F9, 0x8BAD], asc ''onboard'']"

definition infer_title_org :: "ustr list" where
  "infer_title_org =
     [[0x90E8, 0x95E8], [0x7EC4, 0x7EC7], [0x56E2, 0x961F], [0x804C, 0x8D23]]"

definition infer_title_merchant :: "ustr list" where
  "infer_title_merchant =
     [[0x5546, 0x5BB6], [0x661F, 0x9009], [0x9065, 0x671B, 0x661F, 0x9009]]"

definition infer_title_knowledge :: "ustr list" where
  "infer_title_knowledge =
     [[0x6587, 0x6863], [0x5206, 0x7C7B], [0x6536, 0x96C6], [0x77E5, 0x8BC6]]"

text \<open>\<^verbatim>\<open>project_keywords\<close> (lines 58 to 76), in the order of the dictionary.\<close>

definition project_keywords :: "(ustr \<times> ustr list) list" where
  "project_keywords =
     [([0x8D85, 0x54C1, 0x4E2D, 0x5FC3, 0x9879, 0x76EE],
       [[0x8D85, 0x54C1], [0x8D85, 0x7EA7, 0x54C1, 0x724C], [0x54C1, 0x724C, 0x4E2D, 0x5FC3],
        [0x54C1, 0x724C, 0x8FD0, 0x8425]]),
      ([0x76F4, 0x64AD, 0x4E1A, 0x52A1, 0x9879, 0x76EE],
       [[0x76F4, 0x64AD], [0x4E3B, 0x64AD], [0x76F4, 0x64AD, 0x95F4],
        [0x76F4, 0x64AD, 0x8FD0, 0x8425], [0x76F4, 0x64AD, 0x5E73, 0x53F0]]),
      ([0x7535, 0x5546, 0x7CFB, 0x7EDF, 0x9879, 0x76EE],
       [[0x8BA2, 0x5355], [0x5546, 0x54C1], [0x8D2D, 0x7269, 0x8F66], [0x652F, 0x4ED8],
        [0x7269, 0x6D41], asc ''OMS'']),
      ([0x8D22, 0x52A1, 0x7BA1, 0x7406, 0x9879, 0x76EE],
       [[0x8D22, 0x52A1], [0x4F1A, 0x8BA1], [0x6210, 0x672C], [0x9884, 0x7B97],
        [0x6536, 0x5165], [0x652F, 0x51FA], [0x7ED3, 0x7B97]]),
      ([0x8425, 0x9500, 0x63A8, 0x5E7F, 0x9879, 0x76EE],
       [[0x8425, 0x9500], [0x63A8, 0x5E7F], [0x5E7F, 0x544A], [0x6D3B, 0x52A8],
        [0x7528, 0x6237, 0x589E, 0x957F], [0x8F6C, 0x5316]]),
      ([0x5185, 0x5BB9, 0x8FD0, 0x8425, 0x9879, 0x76EE],
       [[0x5185, 0x5BB9], [0x521B, 0x4F5C], [0x89C6, 0x9891], [0x56FE, 0x7247],
        [0x6587, 0x7AE0], [0x521B, 0x610F]]),
      ([0x7528, 0x6237, 0x8FD0, 0x8425, 0x9879, 0x76EE],
       [[0x7528, 0x6237, 0x8FD0, 0x8425], [0x79C1, 0x57DF], [0x5BA2, 0x670D],
        [0x7528, 0x6237, 0x7BA1, 0x7406], [0x5BA2, 0x6237, 0x670D, 0x52A1]]),
      ([0x6280, 0x672F, 0x5E73, 0x53F0, 0x9879, 0x76EE],
       [[0x5E73, 0x53F0], [0x7CFB, 0x7EDF], [0x67B6, 0x6784], [0x6280, 0x672F],
        [0x5F00, 0x53D1], [0x4EA7, 0x7814]]),
      ([0x6570, 0x636E, 0x5206, 0x6790, 0x9879, 0x76EE],
       [[0x6570, 0x636E], [0x5206, 0x6790], [0x7EDF, 0x8BA1], [0x6307, 0x6807],
        [0x62A5, 0x8868], [0x6570, 0x636E, 0x5E93]]),
      ([0x79FB, 0x52A8, 0x7AEF, 0x9879, 0x76EE],
       [[0x79FB, 0x52A8], asc ''APP'', [0x5C0F, 0x7A0B, 0x5E8F], [0x79FB, 0x52A8, 0x7AEF],
        asc ''iOS'', asc ''Android'']),
      ([0x8FD0, 0x7EF4, 0x4FDD, 0x969C, 0x9879, 0x76EE],
       [[0x8FD0, 0x7EF4], [0x90E8, 0x7F72], [0x76D1, 0x63A7], [0x670D, 0x52A1, 0x5668],
        [0x8FD0, 0x7EF4, 0x4FDD, 0x969C]]),
      ([0x4EBA, 0x529B, 0x8D44, 0x6E90, 0x9879, 0x76EE],
       [[0x4EBA, 0x529B], asc ''HR'', [0x62DB, 0x8058], [0x57F9, 0x8BAD], [0x7EE9, 0x6548],
        [0x85AA, 0x916C], [0x5458, 0x5DE5]]),
      ([0x8D28, 0x91CF, 0x7BA1, 0x63A7, 0x9879, 0x76EE],
       [[0x8D28, 0x91CF], [0x54C1, 0x63A7], [0x54C1, 0x8D28, 0x7BA1, 0x7406],
        [0x8D28, 0x91CF, 0x4FDD, 0x8BC1], [0x6D4B, 0x8BD5]]),
      ([0x6D41, 0x7A0B, 0x4F18, 0x5316, 0x9879, 0x76EE],
       [[0x6D41, 0x7A0B], [0x4F18, 0x5316], [0x89C4, 0x8303], [0x6807, 0x51C6, 0x5316],
        [0x5236, 0x5EA6], [0x7BA1, 0x7406]])]"

text \<open>\<^verbatim>\<open>standardization_map\<close> (lines 217 to 233), in the order of the dictionary.\<close>

definition standardization_map :: "(ustr \<times> ustr) list" where
  "standardization_map =
     [([0x8D85, 0x54C1, 0x4E2D, 0x5FC3], [0x8D85, 0x54C1, 0x4E2D, 0x5FC3, 0x9879, 0x76EE]),
      ([0x8D85, 0x54C1], [0x8D85, 0x54C1, 0x4E2D, 0x5FC3, 0x9879, 0x76EE]),
      ([0x8D22, 0x52A1], [0x8D22, 0x52A1, 0x7BA1, 0x7406, 0x9879, 0x76EE]),
      ([0x8D22, 0x52A1, 0x7CFB, 0x7EDF], [0x8D22, 0x52A1, 0x7BA1, 0x7406, 0x9879, 0x76EE]),
      ([0x8D22, 0x52A1, 0x4E13, 0x9879], [0x8D22, 0x52A1, 0x7BA1, 0x7406, 0x9879, 0x76EE]),
      ([0x65B0, 0x4EBA], [0x4EBA, 0x529B, 0x8D44, 0x6E90, 0x9879, 0x76EE]),
      ([0x5165, 0x804C], [0x4EBA, 0x529B, 0x8D44, 0x6E90, 0x9879, 0x76EE]),
      ([0x90E8, 0x95E8], [0x7EC4, 0x7EC7, 0x7BA1, 0x7406, 0x9879, 0x76EE]),
      ([0x7EC4, 0x7EC7], [0x7EC4, 0x7EC7, 0x7BA1, 0x7406, 0x9879, 0x76EE]),
      ([0x6587, 0x6863, 0x5206, 0x7C7B], [0x77E5, 0x8BC6, 0x7BA1, 0x7406, 0x9879, 0x76EE]),
      ([0x6587, 0x6863], [0x77E5, 0x8BC6, 0x7BA1, 0x7406, 0x9879, 0x76EE]),
      ([0x77E5, 0x8BC6], [0x77E5, 0x8BC6, 0x7BA1, 0x7406, 0x9879, 0x76EE]),
      ([0x5546, 0x5BB6, 0x7AEF], [0x8D85, 0x54C1, 0x4E2D, 0x5FC3, 0x9879, 0x76EE]),
      ([0x9065, 0x671B, 0x661F, 0x9009], [0x8D85, 0x54C1, 0x4E2D, 0x5FC3, 0x9879, 0x76EE]),
      ([0x80CC, 0x666F], [0x6280, 0x672F, 0x5E73, 0x53F0, 0x9879, 0x76EE])]"

text \<open>The vocabularies of lines 286 to 292 and of lines 313 to 315.\<close>

definition financial_words :: "ustr list" where
  "financial_words =
     [[0x8D22, 0x52A1], [0x7ED3, 0x7B97], [0x4E1A, 0x7EE9], [0x6BDB, 0x5229], [0x6210, 0x672C],
      [0x6536, 0x5165], [0x652F, 0x51FA], [0x9884, 0x7B97], [0x4F1A, 0x8BA1]]"

definition hr_words :: "ustr list" where
  "hr_words =
     [[0x4EBA, 0x529B], [0x62DB, 0x8058], [0x57F9, 0x8BAD], [0x5458, 0x5DE5], [0x5165, 0x804C],
      [0x85AA, 0x916C], [0x7EE9, 0x6548], [0x8003, 0x6838]]"

definition product_words :: "ustr list" where
  "product_words =
     [[0x4EA7, 0x54C1], [0x9700, 0x6C42], asc ''PRD'', [0x529F, 0x80FD], [0x7528, 0x6237],
      [0x4F53, 0x9A8C], [0x8BBE, 0x8BA1]]"

definition tech_words :: "ustr list" where
  "tech_words =
     [[0x6280, 0x672F], [0x5F00, 0x53D1], [0x7CFB, 0x7EDF], [0x5E73, 0x53F0], [0x67B6, 0x6784],
      [0x6570, 0x636E, 0x5E93], [0x63A5, 0x53E3], asc ''API'']"

definition operation_words :: "ustr list" where
  "operation_words =
     [[0x8FD0, 0x8425], [0x8425, 0x9500], [0x63A8, 0x5E7F], [0x6D3B, 0x52A8], [0x8F6C, 0x5316],
      [0x6E20, 0x9053], [0x5BA2, 0x6237]]"

definition management_words :: "ustr list" where
  "management_words =
     [[0x7BA1, 0x7406], [0x6D41, 0x7A0B], [0x5236, 0x5EA6], [0x89C4, 0x8303], [0x4F18, 0x5316],
      [0x56E2, 0x961F], [0x7EC4, 0x7EC7]]"

definition knowledge_words :: "ustr list" where
  "knowledge_words =
     [[0x6587, 0x6863], [0x77E5, 0x8BC6], [0x5206, 0x7C7B], [0x6536, 0x96C6], [0x6574, 0x7406],
      [0x5F52, 0x6863], [0x6307, 0x5357]]"

definition business_count_words :: "ustr list" where
  "business_count_words =
     [[0x7528, 0x6237], [0x4EA7, 0x54C1], [0x4E1A, 0x52A1], [0x8FD0, 0x8425], [0x8425, 0x9500],
      [0x5546, 0x4E1A]]"

definition tech_count_words :: "ustr list" where
  "tech_count_words =
     [[0x7CFB, 0x7EDF], [0x5E73, 0x53F0], [0x6280, 0x672F], [0x5F00, 0x53D1], [0x6570, 0x636E],
      [0x529F, 0x80FD]]"

definition mgmt_count_words :: "ustr list" where
  "mgmt_count_words =
     [[0x7BA1, 0x7406], [0x6D41, 0x7A0B], [0x5236, 0x5EA6], [0x57F9, 0x8BAD], [0x56E2, 0x961F]]"

text \<open>
  A dictionary is a list of its entries in the order of insertion. \<open>max(d.values())\<close>
  and \<open>max(d, key=d.get)\<close> give the value and the key of the first entry among those of
  the greatest value: \<open>max\<close> replaces its candidate only by a strictly greater one. On
  an empty dictionary \<open>max\<close> raises \<open>ValueError\<close>, which is \<open>None\<close> here.
\<close>

fun max_from :: "('a \<times> nat) \<Rightarrow> ('a \<times> nat) list \<Rightarrow> ('a \<times> nat)" where
  "max_from best [] = best"
| "max_from best (x # xs) = (if snd best < snd x then max_from x xs else max_from best xs)"

definition dict_max :: "('a \<times> nat) list \<Rightarrow> ('a \<times> nat) option" where
  "dict_max d = (case d of [] \<Rightarrow> None | x # xs \<Rightarrow> Some (max_from x xs))"

text \<open>
  The scoring loops of \<^verbatim>\<open>identify_project\<close> (lines 139 to 152, weight 3) and of
  \<^verbatim>\<open>classify_document_type\<close> (lines 333 to 346, weight 5): the inner loop over the
  keywords of one entry, and the outer loop that stores the positive scores.
\<close>

fun keyword_score :: "pyenv \<Rightarrow> nat \<Rightarrow> ustr \<Rightarrow> ustr \<Rightarrow> nat \<Rightarrow> ustr list \<Rightarrow> nat" where
  "keyword_score E weight combined_text title_lower score [] = score"
| "keyword_score E weight combined_text title_lower score (keyword # keywords) =
     (let keyword_lower = uni_lower E keyword;
          content_count = py_count combined_text keyword_lower;
          score = score + content_count;
          score = (if py_in keyword_lower title_lower then score + weight else score)
      in keyword_score E weight combined_text title_lower score keywords)"

fun score_table :: "pyenv \<Rightarrow> nat \<Rightarrow> ustr \<Rightarrow> ustr \<Rightarrow> (ustr \<times> ustr list) list \<Rightarrow> (ustr \<times> nat) list" where
  "score_table E weight combined_text title_lower [] = []"
| "score_table E weight combined_text title_lower ((name, keywords) # entries) =
     (let score = keyword_score E weight combined_text title_lower 0 keywords
      in if 0 < score
         then (name, score) # score_table E weight combined_text title_lower entries
         else score_table E weight combined_text title_lower entries)"

text \<open>
  \<^verbatim>\<open>_standardize_project_name\<close> (lines 210 to 246). The version pattern of line
  214 is \<^verbatim>\<open>[vV]?\d+\.?\d*\<close>. The three branches of lines 241 to 246 return the
  same string.
\<close>

definition version_pattern :: "pyenv \<Rightarrow> pattern" where
  "version_pattern E =
     ([], [Rep (\<lambda>c. c \<in> set (asc ''vV'')) 0 (Some 1), Rep (re_digit E) 1 None,
           Rep (\<lambda>c. c = 0x2E) 0 (Some 1), Rep (re_digit E) 0 None], [])"

definition standardize_project_name :: "pyenv \<Rightarrow> ustr \<Rightarrow> ustr" where
  "standardize_project_name E project_core0 =
     (let project_core = py_strip E (re_sub (version_pattern E) [] project_core0)
      in case find (\<lambda>(key, standard_name). py_in key project_core) standardization_map of
           Some (key, standard_name) \<Rightarrow> standard_name
         | None \<Rightarrow>
             (if any_in [[0x4E2D, 0x5FC3], [0x5E73, 0x53F0], [0x7CFB, 0x7EDF]] project_core
              then project_core @ suffix_project
              else if py_in [0x7BA1, 0x7406] project_core then project_core @ suffix_project
              else project_core @ suffix_project))"

text \<open>
  \<^verbatim>\<open>_extract_explicit_project_name\<close> (lines 164 to 208). The five title patterns are a
  run of word characters that ends in "centre" (U+4E2D U+5FC3), "system", "platform",
  "project" or "business", followed by an optional version; the run may be empty in the
  first pattern only: \<^verbatim>\<open>(\w*XX)\s*[vV]?\d*\.?\d*\<close> for "centre" and
  \<^verbatim>\<open>(\w+XX)\s*[vV]?\d*\.?\d*\<close> for the other four words \<open>XX\<close>.
\<close>

definition version_tail :: "pyenv \<Rightarrow> atom list" where
  "version_tail E =
     [Rep (re_space E) 0 None, Rep (\<lambda>c. c \<in> set (asc ''vV'')) 0 (Some 1),
      Rep (re_digit E) 0 None, Rep (\<lambda>c. c = 0x2E) 0 (Some 1), Rep (re_digit E) 0 None]"

definition title_patterns :: "pyenv \<Rightarrow> pattern list" where
  "title_patterns E =
     [([], [Rep (re_word E) 0 None, Lit [0x4E2D, 0x5FC3]], version_tail E),
      ([], [Rep (re_word E) 1 None, Lit [0x7CFB, 0x7EDF]], version_tail E),
      ([], [Rep (re_word E) 1 None, Lit [0x5E73, 0x53F0]], version_tail E),
      ([], [Rep (re_word E) 1 None, Lit [0x9879, 0x76EE]], version_tail E),
      ([], [Rep (re_word E) 1 None, Lit [0x4E1A, 0x52A1]], version_tail E)]"

text \<open>
  The four content patterns: "project" or "owning project", an optional colon (ASCII or
  full-width U+FF1A), whitespace, and a group of 2 to 10 characters that are neither
  whitespace nor a comma (ASCII or U+FF0C) nor a full stop U+3002; a group of 2 to 8
  characters that are not whitespace, then whitespace and \<open>PRD\<close>; a group of 2 to 10
  characters that are neither whitespace nor a newline, then whitespace and "requirements
  document" (U+9700 U+6C42 U+6587 U+6863). With \<open>XX\<close> for the Chinese words, \<open>C\<close> for the
  full-width colon, comma and full stop:
  \<^verbatim>\<open>XX[:C]?\s*([^\s\n,CC]{2,10})\<close> (twice), \<^verbatim>\<open>([^\s]{2,8})\s*PRD\<close> and
  \<^verbatim>\<open>([^\s\n]{2,10})\s*XX\<close>.
\<close>

definition name_char :: "pyenv \<Rightarrow> int \<Rightarrow> bool" where
  "name_char E c = (\<not> (re_space E c \<or> c = 0x0A \<or> c = 0x2C \<or> c = 0xFF0C \<or> c = 0x3002))"

definition content_patterns :: "pyenv \<Rightarrow> pattern list" where
  "content_patterns E =
     [([Lit [0x9879, 0x76EE], Rep (\<lambda>c. c = 0x3A \<or> c = 0xFF1A) 0 (Some 1), Rep (re_space E) 0 None],
       [Rep (name_char E) 2 (Some 10)], []),
      ([Lit [0x6240, 0x5C5E, 0x9879, 0x76EE], Rep (\<lambda>c. c = 0x3A \<or> c = 0xFF1A) 0 (Some 1),
        Rep (re_space E) 0 None],
       [Rep (name_char E) 2 (Some 10)], []),
      ([], [Rep (\<lambda>c. \<not> re_space E c) 2 (Some 8)], [Rep (re_space E) 0 None, Lit (asc ''PRD'')]),
      ([], [Rep (\<lambda>c. \<not> (re_space E c \<or> c = 0x0A)) 2 (Some 10)],
       [Rep (re_space E) 0 None, Lit [0x9700, 0x6C42, 0x6587, 0x6863]])]"

text \<open>The loop over the title patterns (lines 180 to 185).\<close>

fun search_title_patterns :: "pyenv \<Rightarrow> pattern list \<Rightarrow> ustr \<Rightarrow> ustr option" where
  "search_title_patterns E [] title = None"
| "search_title_patterns E (pattern # patterns) title =
     (case re_search pattern title of
        Some project_core \<Rightarrow> Some (standardize_project_name E project_core)
      | None \<Rightarrow> search_title_patterns E patterns title)"

text \<open>
  The loop over the matches of one content pattern (lines 199 to 206): a match is kept
  when it has two characters or more, is not a number, does not start with the full-width
  colon and does not contain "solve" (U+89E3 U+51B3), and when its standard name is not
  the match with the suffix "project".
\<close>

fun first_standardized :: "pyenv \<Rightarrow> ustr list \<Rightarrow> ustr option" where
  "first_standardized E [] = None"
| "first_standardized E (m # matches) =
     (let match = py_strip E m
      in if 2 \<le> length match \<and> \<not> py_isdigit E match \<and> \<not> prefix [0xFF1A] match \<and>
            \<not> py_in [0x89E3, 0x51B3] match
         then (let standardized = standardize_project_name E match
               in if standardized \<noteq> match @ suffix_project then Some standardized
                  else first_standardized E matches)
         else first_standardized E matches)"

text \<open>The loop over the content patterns (lines 195 to 208).\<close>

fun search_content_patterns :: "pyenv \<Rightarrow> pattern list \<Rightarrow> ustr \<Rightarrow> ustr" where
  "search_content_patterns E [] search_text = []"
| "search_content_patterns E (pattern # patterns) search_text =
     (case first_standardized E (re_findall pattern search_text) of
        Some standardized \<Rightarrow> standardized
      | None \<Rightarrow> search_content_patterns E patterns search_text)"

definition extract_explicit_project_name :: "pyenv \<Rightarrow> ustr \<Rightarrow> ustr \<Rightarrow> ustr" where
  "extract_explicit_project_name E title text =
     (let search_text = title @ [32] @ take 500 text
      in case search_title_patterns E (title_patterns E) title of
           Some name \<Rightarrow> name
         | None \<Rightarrow> search_content_patterns E (content_patterns E) search_text)"

text \<open>
  The keywords of \<^verbatim>\<open>_infer_project_from_content\<close> (lines 251 to 262): those of
  \<open>jieba\<close> when it is there, and otherwise the 15 most common words of 2 to 8
  characters of the text, split at whitespace and at the full-width comma and full stop.
\<close>

definition infer_strip_chars :: ustr where
  "infer_strip_chars = [0x20, 0x9, 0xA] @ asc ''.,!?;:()[]{}'' @ [0x22, 0x27] @ asc ''-''"

definition infer_keywords :: "pyenv \<Rightarrow> ustr \<Rightarrow> ustr list" where
  "infer_keywords E text =
     (case extract_tags E of
        Some jieba_extract_tags \<Rightarrow> jieba_extract_tags text 15
      | None \<Rightarrow>
          (let words = filter (\<lambda>word. 2 \<le> length word \<and> length word \<le> 8)
                 (map (strip_chars (\<lambda>c. c \<in> set infer_strip_chars))
                    (py_split E (replace_char 0x3002 [32] (replace_char 0xFF0C [32] text))));
               word_count = foldl counter_incr [] words
           in map fst (take 15 (most_common word_count))))"

text \<open>\<open>sum(1 for kw in keywords if any(w in kw for w in words))\<close>.\<close>

definition count_matching :: "ustr list \<Rightarrow> ustr list \<Rightarrow> nat" where
  "count_matching words keywords = length (filter (\<lambda>kw. any_in words kw) keywords)"

text \<open>
  What \<^verbatim>\<open>_infer_project_from_content\<close> does with the keywords once the title checks
  have failed (lines 284 to 322).
\<close>

definition infer_from_keywords :: "ustr list \<Rightarrow> ustr" where
  "infer_from_keywords keywords =
     (let domain_scores =
            [(project_finance, count_matching financial_words keywords),
             (project_hr, count_matching hr_words keywords),
             ([0x4EA7, 0x54C1, 0x7814, 0x53D1, 0x9879, 0x76EE], count_matching product_words keywords),
             (project_tech, count_matching tech_words keywords),
             ([0x8FD0, 0x8425, 0x63A8, 0x5E7F, 0x9879, 0x76EE], count_matching operation_words keywords),
             (project_org, count_matching management_words keywords),
             (project_knowledge, count_matching knowledge_words keywords)];
          business_count = count_matching business_count_words keywords;
          tech_count = count_matching tech_count_words keywords;
          mgmt_count = count_matching mgmt_count_words keywords;
          general =
            (if business_count \<le> tech_count \<and> mgmt_count \<le> tech_count then project_tech
             else if mgmt_count \<le> business_count then project_business
             else project_org)
      in case dict_max domain_scores of
           Some (best_domain, max_score) \<Rightarrow> (if 0 < max_score then best_domain else general)
         | None \<Rightarrow> general)"

text \<open>\<^verbatim>\<open>_infer_project_from_content\<close> (lines 248 to 322).\<close>

definition infer_project_from_content :: "pyenv \<Rightarrow> ustr \<Rightarrow> ustr \<Rightarrow> ustr" where
  "infer_project_from_content E text title =
     (let keywords = infer_keywords E text;
          title_lower = uni_lower E title
      in if any_in infer_title_superbrand title_lower then project_superbrand
         else if any_in infer_title_finance title_lower then project_finance
         else if any_in infer_title_hr title_lower then project_hr
         else if any_in infer_title_org title_lower then project_org
         else if any_in infer_title_merchant title_lower then project_superbrand
         else if any_in infer_title_knowledge title_lower then project_knowledge
         else infer_from_keywords keywords)"

text \<open>\<^verbatim>\<open>identify_project\<close> (lines 107 to 162).\<close>

definition identify_project :: "pyenv \<Rightarrow> ustr \<Rightarrow> ustr \<Rightarrow> ustr" where
  "identify_project E text title =
     (let title_lower = uni_lower E title;
          combined_text = uni_lower E (title @ [32] @ text)
      in if any_in title_superbrand title_lower then project_superbrand
         else if any_in title_finance title_lower then project_finance
         else if any_in title_hr title_lower then project_hr
         else if any_in title_org title_lower then project_org
         else if any_in title_merchant title_lower then project_superbrand
         else if any_in title_knowledge title_lower then project_knowledge
         else (let extracted_project = extract_explicit_project_name E title text
               in if extracted_project \<noteq> [] then extracted_project
                  else (let project_scores =
                              score_table E 3 combined_text title_lower project_keywords
                        in case dict_max project_scores of
                             Some (best_project, max_score) \<Rightarrow>
                               (if 3 \<le> max_score then best_project
                                else infer_project_from_content E combined_text title)
                           | None \<Rightarrow> infer_project_from_content E combined_text title)))"

text \<open>
  The variant of \<^verbatim>\<open>identify_project\<close> that the specification compares it with: the
  fallback goes from the keywords to the domain scores at once, without the second copy
  of the title checks.
\<close>

definition infer_project_without_title_checks :: "pyenv \<Rightarrow> ustr \<Rightarrow> ustr \<Rightarrow> ustr" where
  "infer_project_without_title_checks E text title = infer_from_keywords (infer_keywords E text)"

definition identify_project_without_duplicate :: "pyenv \<Rightarrow> ustr \<Rightarrow> ustr \<Rightarrow> ustr" where
  "identify_project_without_duplicate E text title =
     (let title_lower = uni_lower E title;
          combined_text = uni_lower E (title @ [32] @ text)
      in if any_in title_superbrand title_lower then project_superbrand
         else if any_in title_finance title_lower then project_finance
         else if any_in title_hr title_lower then project_hr
         else if any_in title_org title_lower then project_org
         else if any_in title_merchant title_lower then project_superbrand
         else if any_in title_knowledge title_lower then project_knowledge
         else (let extracted_project = extract_explicit_project_name E title text
               in if extracted_project \<noteq> [] then extracted_project
                  else (let project_scores =
                              score_table E 3 combined_text title_lower project_keywords
                        in case dict_max project_scores of
                             Some (best_project, max_score) \<Rightarrow>
                               (if 3 \<le> max_score then best_project
                                else infer_project_without_title_checks E combined_text title)
                           | None \<Rightarrow> infer_project_without_title_checks E combined_text title)))"

section \<open>DocumentTypeClassifier\<close>

text \<open>\<^verbatim>\<open>document_types\<close> (lines 29 to 55), in the order of the dictionary: the documents
  of requirements, of technique, of testing, of operations, of knowledge and of
  management.\<close>

definition document_types :: "(ustr \<times> ustr list) list" where
  "document_types =
     [([0x9700, 0x6C42, 0x7C7B, 0x6587, 0x6863],
       [[0x9700, 0x6C42], [0x529F, 0x80FD, 0x9700, 0x6C42], [0x4E1A, 0x52A1, 0x9700, 0x6C42],
        [0x4EA7, 0x54C1, 0x9700, 0x6C42], asc ''PRD'', [0x9700, 0x6C42, 0x5206, 0x6790],
        asc ''requirement'', asc ''feature'', [0x7528, 0x6237, 0x9700, 0x6C42],
        [0x529F, 0x80FD, 0x89C4, 0x683C], [0x9700, 0x6C42, 0x8BF4, 0x660E]]),
      ([0x6280, 0x672F, 0x7C7B, 0x6587, 0x6863],
       [[0x6280, 0x672F], [0x5F00, 0x53D1], [0x7F16, 0x7A0B], [0x4EE3, 0x7801],
        [0x5B9E, 0x73B0], [0x67B6, 0x6784], [0x8BBE, 0x8BA1], asc ''API'', asc ''development'',
        asc ''coding'', [0x6280, 0x672F, 0x65B9, 0x6848], [0x7CFB, 0x7EDF, 0x8BBE, 0x8BA1],
        [0x63A5, 0x53E3, 0x6587, 0x6863], [0x6570, 0x636E, 0x5E93], [0x7B97, 0x6CD5],
        [0x6846, 0x67B6], [0x6280, 0x672F, 0x89C4, 0x8303]]),
      ([0x6D4B, 0x8BD5, 0x7C7B, 0x6587, 0x6863],
       [[0x6D4B, 0x8BD5], [0x8D28, 0x91CF], asc ''QA'', [0x6D4B, 0x8BD5, 0x7528, 0x4F8B],
        [0x6D4B, 0x8BD5, 0x8BA1, 0x5212], asc ''testing'', [0x6D4B, 0x8BD5, 0x62A5, 0x544A],
        [0x7F3A, 0x9677], asc ''bug'', [0x8D28, 0x91CF, 0x4FDD, 0x8BC1],
        [0x9A8C, 0x6536, 0x6D4B, 0x8BD5], [0x6027, 0x80FD, 0x6D4B, 0x8BD5]]),
      ([0x8FD0, 0x7EF4, 0x7C7B, 0x6587, 0x6863],
       [[0x8FD0, 0x7EF4], [0x90E8, 0x7F72], [0x76D1, 0x63A7], [0x670D, 0x52A1, 0x5668],
        [0x7CFB, 0x7EDF, 0x8FD0, 0x7EF4], asc ''devops'', asc ''deploy'',
        [0x8FD0, 0x7EF4, 0x624B, 0x518C], [0x6545, 0x969C, 0x5904, 0x7406], [0x5907, 0x4EFD],
        [0x5B89, 0x5168], [0x914D, 0x7F6E, 0x7BA1, 0x7406]]),
      ([0x77E5, 0x8BC6, 0x7C7B, 0x6587, 0x6863],
       [[0x77E5, 0x8BC6], [0x6559, 0x7A0B], [0x57F9, 0x8BAD], [0x8BF4, 0x660E],
        [0x6307, 0x5357], [0x624B, 0x518C], [0x4ECB, 0x7ECD], [0x5B66, 0x4E60],
        [0x5206, 0x4EAB], [0x603B, 0x7ED3], [0x7ECF, 0x9A8C], [0x6700, 0x4F73, 0x5B9E, 0x8DF5],
        [0x89C4, 0x8303], [0x6807, 0x51C6]]),
      ([0x7BA1, 0x7406, 0x7C7B, 0x6587, 0x6863],
       [[0x7BA1, 0x7406], [0x9879, 0x76EE, 0x7BA1, 0x7406], [0x8BA1, 0x5212], [0x6D41, 0x7A0B],
        [0x89C4, 0x8303], asc ''management'', asc ''process'', [0x4F1A, 0x8BAE],
        [0x51B3, 0x7B56], [0x62A5, 0x544A], [0x603B, 0x7ED3], [0x5236, 0x5EA6], [0x653F, 0x7B56]])]"

text \<open>The default type, "knowledge document".\<close>

definition doctype_knowledge :: ustr where
  "doctype_knowledge = [0x77E5, 0x8BC6, 0x7C7B, 0x6587, 0x6863]"

text \<open>\<^verbatim>\<open>classify_document_type\<close> (lines 324 to 353).\<close>

definition classify_document_type :: "pyenv \<Rightarrow> ustr \<Rightarrow> ustr \<Rightarrow> ustr" where
  "classify_document_type E text title =
     (let title_lower = uni_lower E title;
          combined_text = uni_lower E (title @ [32] @ text);
          type_scores = score_table E 5 combined_text title_lower document_types
      in case dict_max type_scores of
           Some (best_type, max_score) \<Rightarrow> best_type
         | None \<Rightarrow> doctype_knowledge)"

section \<open>SummaryGenerator\<close>

text \<open>
  The five pattern lists of lines 569 to 573 (background, objective, content, solution,
  result) and the 27 important keywords of lines 607 to 611. The list of line 571 is
  named \<open>content_patterns\<close> in the source, as the list of line 188 is.
\<close>

definition background_patterns :: "ustr list" where
  "background_patterns =
     [[0x80CC, 0x666F], [0x73B0, 0x72B6], [0x95EE, 0x9898], [0x6311, 0x6218], [0x539F, 0x56E0],
      [0x60C5, 0x51B5]]"

definition objective_patterns :: "ustr list" where
  "objective_patterns =
     [[0x76EE, 0x6807], [0x76EE, 0x7684], [0x671F, 0x671B], [0x9884, 0x671F], [0x8BA1, 0x5212],
      [0x8981, 0x6C42]]"

definition summary_content_patterns :: "ustr list" where
  "summary_content_patterns =
     [[0x5185, 0x5BB9], [0x529F, 0x80FD], [0x7279, 0x70B9], [0x7279, 0x6027], [0x5305, 0x62EC],
      [0x5305, 0x542B], [0x5177, 0x4F53]]"

definition solution_patterns :: "ustr list" where
  "solution_patterns =
     [[0x65B9, 0x6848], [0x89E3, 0x51B3], [0x5B9E, 0x73B0], [0x5B9E, 0x65BD], [0x6267, 0x884C],
      [0x64CD, 0x4F5C], [0x6B65, 0x9AA4], [0x6D41, 0x7A0B]]"

definition result_patterns :: "ustr list" where
  "result_patterns =
     [[0x7ED3, 0x679C], [0x6548, 0x679C], [0x6536, 0x76CA], [0x4EF7, 0x503C], [0x6210, 0x679C],
      [0x603B, 0x7ED3], [0x7ED3, 0x8BBA]]"

definition important_keywords :: "ustr list" where
  "important_keywords =
     [[0x9879, 0x76EE], [0x7CFB, 0x7EDF], [0x5E73, 0x53F0], [0x529F, 0x80FD], [0x9700, 0x6C42],
      [0x8BBE, 0x8BA1], [0x5F00, 0x53D1], [0x6D4B, 0x8BD5], [0x8FD0, 0x7EF4], [0x7BA1, 0x7406],
      [0x6D41, 0x7A0B], [0x89C4, 0x8303], [0x4F18, 0x5316], [0x5347, 0x7EA7], [0x6539, 0x8FDB],
      [0x5B9E, 0x73B0], [0x652F, 0x6301], [0x63D0, 0x4F9B], [0x7528, 0x6237], [0x5BA2, 0x6237],
      [0x4E1A, 0x52A1], [0x670D, 0x52A1], [0x4EA7, 0x54C1], [0x65B9, 0x6848], [0x8BA1, 0x5212],
      [0x76EE, 0x6807], [0x6548, 0x679C]]"

text \<open>The five lists that the paragraphs are sorted into (lines 562 to 566).\<close>

record buckets =
  background_info :: "ustr list"
  objective_info :: "ustr list"
  content_info :: "ustr list"
  solution_info :: "ustr list"
  result_info :: "ustr list"

definition empty_buckets :: buckets where
  "empty_buckets = \<lparr> background_info = [], objective_info = [], content_info = [],
     solution_info = [], result_info = [] \<rparr>"

text \<open>The paragraphs (line 555): the stripped lines of the text that are not blank.\<close>

definition paragraphs_of :: "pyenv \<Rightarrow> ustr \<Rightarrow> ustr list" where
  "paragraphs_of E text =
     map (py_strip E) (filter (\<lambda>p. py_strip E p \<noteq> []) (split_on 0x0A [] text))"

text \<open>
  The loop of lines 576 to 602. The first list with a word in the paragraph decides; the
  paragraph is stored when it has more than 15 characters, and dropped otherwise.
\<close>

fun bucket_paragraphs :: "pyenv \<Rightarrow> buckets \<Rightarrow> ustr list \<Rightarrow> buckets" where
  "bucket_paragraphs E b [] = b"
| "bucket_paragraphs E b (para # paragraphs) =
     (let para_lower = uni_lower E para
      in bucket_paragraphs E
           (if any_in background_patterns para_lower
            then (if 15 < length para then b\<lparr>background_info := background_info b @ [para]\<rparr> else b)
            else if any_in objective_patterns para_lower
            then (if 15 < length para then b\<lparr>objective_info := objective_info b @ [para]\<rparr> else b)
            else if any_in solution_patterns para_lower
            then (if 15 < length para then b\<lparr>solution_info := solution_info b @ [para]\<rparr> else b)
            else if any_in result_patterns para_lower
            then (if 15 < length para then b\<lparr>result_info := result_info b @ [para]\<rparr> else b)
            else if any_in summary_content_patterns para_lower
            then (if 15 < length para then b\<lparr>content_info := content_info b @ [para]\<rparr> else b)
            else b)
           paragraphs)"

text \<open>The score of a paragraph (lines 616 to 619).\<close>

definition importance_score :: "pyenv \<Rightarrow> ustr \<Rightarrow> nat" where
  "importance_score E para =
     (let para_lower = uni_lower E para
      in foldl (\<lambda>score keyword. score + py_count para_lower keyword) 0 important_keywords)"

text \<open>The loop of lines 614 to 622, on the first 15 paragraphs.\<close>

fun score_paragraphs :: "pyenv \<Rightarrow> ustr list \<Rightarrow> (ustr \<times> nat) list" where
  "score_paragraphs E [] = []"
| "score_paragraphs E (para # paragraphs) =
     (if 30 < length para
      then (let score = importance_score E para
            in if 0 < score then (para, score) # score_paragraphs E paragraphs
               else score_paragraphs E paragraphs)
      else score_paragraphs E paragraphs)"

text \<open>
  The five lists when the summary is composed (lines 562 to 626): those of the loop, and
  when all five are empty, the content list filled from the scored paragraphs, sorted by
  score from high to low (a stable sort) and cut to 8.
\<close>

definition structured_buckets :: "pyenv \<Rightarrow> ustr list \<Rightarrow> buckets" where
  "structured_buckets E paragraphs =
     (let b = bucket_paragraphs E empty_buckets paragraphs
      in if background_info b = [] \<and> objective_info b = [] \<and> content_info b = [] \<and>
            solution_info b = [] \<and> result_info b = []
         then (let scored_paragraphs =
                     sort_key (\<lambda>(para, score). - int score)
                       (score_paragraphs E (take 15 paragraphs))
               in b\<lparr>content_info := map fst (take 8 scored_paragraphs)\<rparr>)
         else b)"

text \<open>One labelled part of the summary (lines 629 to 642 and 651 to 652).\<close>

definition summary_part :: "ustr \<Rightarrow> nat \<Rightarrow> ustr list \<Rightarrow> ustr list" where
  "summary_part label n info = (if info \<noteq> [] then [label @ py_join [32] (take n info)] else [])"


definition empty_document_summary :: ustr where
  "empty_document_summary = [0x6587, 0x6863, 0x5185, 0x5BB9, 0x4E3A, 0x7A7A]"

text \<open>\<^verbatim>\<open>generate_content_summary\<close> (lines 549 to 670).\<close>

definition generate_content_summary :: "pyenv \<Rightarrow> ustr \<Rightarrow> ustr \<Rightarrow> ustr" where
  "generate_content_summary E text title =
     (if py_strip E text = [] then empty_document_summary
      else
        (let paragraphs = paragraphs_of E text;
             summary_parts =
               (if HAS_JIEBA E
                then (let b = structured_buckets E paragraphs
                      in summary_part [0x3010, 0x80CC, 0x666F, 0x60C5, 0x51B5, 0x3011] 2 (background_info b) @
                         summary_part [0x3010, 0x9879, 0x76EE, 0x76EE, 0x6807, 0x3011] 2 (objective_info b) @
                         summary_part [0x3010, 0x4E3B, 0x8981, 0x5185, 0x5BB9, 0x3011] 4 (content_info b) @
                         summary_part [0x3010, 0x5B9E, 0x65BD, 0x65B9, 0x6848, 0x3011] 3 (solution_info b) @
                         summary_part [0x3010, 0x9884, 0x671F, 0x6548, 0x679C, 0x3011] 2 (result_info b))
                else (let important_paragraphs = filter (\<lambda>para. 30 < length para) (take 10 paragraphs)
                      in summary_part [0x3010, 0x6587, 0x6863, 0x5185, 0x5BB9, 0x3011] 5 important_paragraphs));
             summary_parts =
               (if summary_parts = []
                then (let content_preview = filter (\<lambda>para. 20 < length para) (take 6 paragraphs)
                      in if content_preview \<noteq> []
                         then [[0x3010, 0x6587, 0x6863, 0x6982, 0x8FF0, 0x3011, 0x672C, 0x6587, 0x6863, 0x4E3B, 0x8981, 0x9610, 0x8FF0, 0x4E86] @ title @
                               [0x7684, 0x76F8, 0x5173, 0x5185, 0x5BB9, 0xFF0C, 0x5305, 0x62EC, 0xFF1A] @ py_join [32] content_preview]
                         else [[0x3010, 0x6587, 0x6863, 0x6982, 0x8FF0, 0x3011, 0x672C, 0x6587, 0x6863, 0x63CF, 0x8FF0, 0x4E86] @ title @
                               [0x76F8, 0x5173, 0x5185, 0x5BB9, 0xFF1A] @ take 300 text @ asc ''...''])
                else summary_parts)
         in py_join [32] summary_parts))"

section \<open>ClassificationOrchestrator\<close>

text \<open>
  \<^verbatim>\<open>format_output\<close> (lines 673 to 680): the row of the table, with its four columns
  (title, project, keywords, summary).
\<close>

record output_row =
  row_title :: ustr
  row_project :: ustr
  row_keywords :: ustr
  row_summary :: ustr

definition format_output :: "ustr \<Rightarrow> ustr \<Rightarrow> ustr \<Rightarrow> ustr list \<Rightarrow> ustr \<Rightarrow> output_row" where
  "format_output title project doc_type keywords summary =
     \<lparr> row_title = title, row_project = project,
       row_keywords = doc_type @ asc ''; '' @ (if keywords \<noteq> [] then py_join (asc ''; '') keywords else []),
       row_summary = summary \<rparr>"

text \<open>
  \<^verbatim>\<open>process_document\<close> (lines 682 to 711), from the title and the text that
  \<^verbatim>\<open>extract_text_from_file\<close> has read. The result is the row together with the
  components that were called, in the order of the calls.
\<close>

datatype component = ProjectClassifier | DocumentTypeClassifier | KeywordExtractor | SummaryGenerator

definition process_document :: "pyenv \<Rightarrow> ustr \<Rightarrow> ustr \<Rightarrow> output_row \<times> component list" where
  "process_document E title text =
     (if py_strip E text = []
      then (format_output title project_unknown doctype_knowledge [] empty_document_summary, [])
      else
        (let project = identify_project E text title;
             doc_type = classify_document_type E text title;
             keywords = extract_keywords E text;
             summary = generate_content_summary E text title
         in (format_output title project doc_type keywords summary,
             [ProjectClassifier, DocumentTypeClassifier, KeywordExtractor, SummaryGenerator])))"

section \<open>The specification's words\<close>

text \<open>
  The score of one bucket in the words of the specification: the occurrences of each
  trigger keyword in the lower-cased title and text, plus 5 for each trigger keyword that
  occurs in the lower-cased title. The title and the text are joined by a space, and an
  occurrence is one that \<open>str.count\<close> counts.
\<close>

definition spec_bucket_score :: "pyenv \<Rightarrow> ustr \<Rightarrow> ustr \<Rightarrow> ustr list \<Rightarrow> nat" where
  "spec_bucket_score E text title keywords =
     (\<Sum>k\<leftarrow>keywords. py_count (uni_lower E (title @ [32] @ text)) (uni_lower E k))
     + 5 * length (filter (\<lambda>k. py_in (uni_lower E k) (uni_lower E title)) keywords)"

text \<open>
  The content bucket of a document without a bucketed paragraph, in the words of the
  specification: the top 8 of the first 15 paragraphs of length above 30, ranked by
  their hits against the important keywords, from high to low, ties in the order of the
  paragraphs.
\<close>

definition spec_content_bucket :: "pyenv \<Rightarrow> ustr list \<Rightarrow> ustr list" where
  "spec_content_bucket E paragraphs =
     take 8 (sort_key (\<lambda>para. - int (importance_score E para))
               (filter (\<lambda>para. 30 < length para) (take 15 paragraphs)))"

text \<open>
  Documents for the examples: a text of 600 characters; a paragraph of 31 letters \<open>a\<close>,
  without any keyword; four paragraphs with one, two, no and one important keyword
  ("project", "system" twice, "user") before 30 letters, and a short one, and the text
  that has them as its lines; the title "test plan" and a text with "test case" five
  times. In \<open>cpython_with_jieba\<close> the package \<open>jieba\<close> is installed; its function
  stands for any, since the summary generator reads the flag only.
\<close>

definition six_hundred_characters :: ustr where
  "six_hundred_characters = asc ''aa bb cc dd x'' @ replicate 587 120"

definition plain_paragraph :: ustr where
  "plain_paragraph = replicate 31 97"

definition cpython_with_jieba :: pyenv where
  "cpython_with_jieba = cpython (Some (\<lambda>text topK. []))"

definition test_plan_title :: ustr where
  "test_plan_title = [0x6D4B, 0x8BD5, 0x8BA1, 0x5212]"

definition test_case_text :: ustr where
  "test_case_text = concat (replicate 5 ([0x6D4B, 0x8BD5, 0x7528, 0x4F8B] @ asc '' ''))"

definition scored_example :: "ustr list" where
  "scored_example =
     [[0x9879, 0x76EE] @ replicate 30 97,
      [0x7CFB, 0x7EDF, 0x7CFB, 0x7EDF] @ replicate 30 98,
      replicate 31 100,
      [0x7528, 0x6237] @ replicate 30 99,
      [0x7CFB, 0x7EDF]]"

definition scored_text :: ustr where
  "scored_text = py_join [10] scored_example"

text \<open>The position of the first occurrence of an element in a list (the length of the
  list when there is none): \<open>a\<close> precedes \<open>b\<close> when its position is the smaller one.\<close>

fun index_of :: "'a list \<Rightarrow> 'a \<Rightarrow> nat" where
  "index_of [] a = 0"
| "index_of (x # xs) a = (if x = a then 0 else Suc (index_of xs a))"

section \<open>Properties of the keyword extractor\<close>

lemma py_in_iff: "py_in w t \<longleftrightarrow> (\<exists>pre post. t = pre @ w @ post)"
proof (induction t)
  case Nil
  then show ?case by auto
next
  case (Cons c cs)
  have "(\<exists>pre post. c # cs = pre @ w @ post) \<longleftrightarrow> prefix w (c # cs) \<or> (\<exists>pre post. cs = pre @ w @ post)"
    using sublist_Cons_right [of w c cs] by (simp add: sublist_def)
  with Cons show ?case by simp
qed

lemma counter_incr_keys: "fst ` set (counter_incr m w) = insert w (fst ` set m)"
  by (induction m w rule: counter_incr.induct) auto

lemma count_words_keys:
  "w \<in> fst ` set (count_words E text m ws) \<Longrightarrow> w \<in> fst ` set m \<or> py_in w text"
proof (induction ws arbitrary: m)
  case Nil
  then show ?case by simp
next
  case (Cons x xs)
  show ?case
  proof (cases "basic_filter E (strip_word x) \<and> absolute_strict_verify_word_in_text (strip_word x) text")
    case True
    with Cons.prems have "w \<in> fst ` set (count_words E text (counter_incr m (strip_word x)) xs)"
      by (simp add: Let_def)
    from Cons.IH [OF this] True show ?thesis
      by (auto simp: counter_incr_keys absolute_strict_verify_word_in_text_def)
  next
    case False
    with Cons.prems have "w \<in> fst ` set (count_words E text m xs)"
      by (auto simp: Let_def)
    from Cons.IH [OF this] show ?thesis .
  qed
qed

lemma most_common_set: "set (most_common m) = set m"
  by (simp add: most_common_def)

lemma select_keywords_set:
  "set (select_keywords n acc m) \<subseteq> set acc \<union> fst ` set m"
  by (induction n acc m rule: select_keywords.induct) (auto split: if_splits)

lemma select_keywords_length:
  "length (select_keywords n acc m) \<le> max (length acc) n"
  by (induction n acc m rule: select_keywords.induct) (auto split: if_splits)

text \<open>
  Claim C2. Every keyword that \<open>extract_keywords\<close> returns occurs in the text it was
  given as a contiguous run of characters: each candidate of each of the three lists
  passes the test \<open>word in text\<close> before it is counted.
\<close>

theorem extract_keywords_substring:
  "k \<in> set (extract_keywords E text) \<Longrightarrow> \<exists>pre post. text = pre @ k @ post"
proof -
  assume k: "k \<in> set (extract_keywords E text)"
  then have "k \<in> set (select_keywords (get_keywords_count (length text)) []
      (most_common (count_words E text [] (candidate_words E text))))"
    by (simp add: extract_keywords_def extract_verified_keywords_from_text_def split: if_splits)
  then have "k \<in> fst ` set (count_words E text [] (candidate_words E text))"
    using select_keywords_set [of "get_keywords_count (length text)" "[]"] most_common_set by fastforce
  then have "py_in k text"
    using count_words_keys by fastforce
  then show ?thesis by (simp add: py_in_iff)
qed

theorem extract_keywords_substring_witness:
  "asc ''c.d'' \<in> set (extract_keywords (cpython None) (asc ''aaaaaaa.bb c.d'')) \<and>
   (\<exists>pre post. asc ''aaaaaaa.bb c.d'' = pre @ asc ''c.d'' @ post)"
proof -
  have h: "asc ''c.d'' \<in> set (extract_keywords (cpython None) (asc ''aaaaaaa.bb c.d''))"
    by code_simp
  from extract_keywords_substring [OF h] h show ?thesis by simp
qed

lemma extract_keywords_le_count:
  "length (extract_keywords E text) \<le> get_keywords_count (length text)"
  using select_keywords_length [of "get_keywords_count (length text)" "[]"]
  by (simp add: extract_keywords_def extract_verified_keywords_from_text_def)

text \<open>
  Claim C3. The number of keywords that \<open>extract_keywords\<close> returns is at most the cap
  derived from the length of the text: 2 below 200 characters, 3 below 500, 5 below 1000,
  8 below 2000, 10 below 3000, 12 below 5000, 15 below 8000, 18 below 12000, 22 below
  20000, and the minimum of \<open>length div 1000 + 3\<close> and 30 from there on.
\<close>

theorem extract_keywords_length:
  "length (extract_keywords E text) \<le>
     (let n = length text in
      if n < 200 then 2 else if n < 500 then 3 else if n < 1000 then 5
      else if n < 2000 then 8 else if n < 3000 then 10 else if n < 5000 then 12
      else if n < 8000 then 15 else if n < 12000 then 18 else if n < 20000 then 22
      else min (n div 1000 + 3) 30)"
  using extract_keywords_le_count [of E "text"]
  by (simp add: get_keywords_count_def Let_def)

theorem extract_keywords_length_witness:
  "length (extract_keywords (cpython None) (asc ''aaaaaaa.bb c.d'')) \<le> 2"
  using extract_keywords_length [of "cpython None" "asc ''aaaaaaa.bb c.d''"]
  by (simp add: asc_def)

lemma index_of_le: "index_of xs a \<le> length xs"
  by (induction xs) auto

lemma index_of_less: "index_of xs a < length xs \<longleftrightarrow> a \<in> set xs"
  by (induction xs) auto

lemma index_of_append:
  "index_of (xs @ ys) a = (if a \<in> set xs then index_of xs a else length xs + index_of ys a)"
  by (induction xs) auto

lemma index_of_subseq:
  "subseq ys xs \<Longrightarrow> distinct xs \<Longrightarrow> a \<in> set ys \<Longrightarrow> b \<in> set ys \<Longrightarrow>
   index_of ys a < index_of ys b \<longleftrightarrow> index_of xs a < index_of xs b"
proof (induction ys xs rule: list_emb.induct)
  case (list_emb_Nil ys)
  then show ?case by simp
next
  case (list_emb_Cons xs ys y)
  from list_emb_Cons.hyps list_emb_Cons.prems have "a \<in> set ys" "b \<in> set ys"
    by (auto elim: list_emb_set)
  with list_emb_Cons show ?case by auto
next
  case (list_emb_Cons2 x y xs ys)
  have sub: "set xs \<subseteq> set ys" using list_emb_Cons2.hyps by (auto elim: list_emb_set)
  from list_emb_Cons2 sub show ?case by auto
qed

lemma subseq_take: "subseq (take n xs) xs"
proof -
  have "subseq (take n xs) (take n xs @ drop n xs)" by (rule subseq_rev_drop_many) simp
  then show ?thesis by simp
qed

lemma count_words_foldl:
  "count_words E text m ws =
     foldl counter_incr m
       (filter (\<lambda>word. basic_filter E word \<and> absolute_strict_verify_word_in_text word text)
          (map strip_word ws))"
  by (induction ws arbitrary: m) (simp_all add: Let_def)

lemma counter_incr_fst:
  "map fst (counter_incr m w) = (if w \<in> fst ` set m then map fst m else map fst m @ [w])"
  by (induction m w rule: counter_incr.induct) (auto simp: image_iff)

lemma counter_incr_map_of:
  "distinct (map fst m) \<Longrightarrow>
   map_of (counter_incr m w) = (map_of m)(w \<mapsto> (case map_of m w of None \<Rightarrow> 1 | Some c \<Rightarrow> c + 1))"
proof (induction m w rule: counter_incr.induct)
  case (1 w)
  then show ?case by simp
next
  case (2 k c m w)
  then show ?case by (auto simp: fun_eq_iff)
qed

lemma counter_of_list:
  "distinct (map fst (foldl counter_incr [] ws)) \<and>
   set (map fst (foldl counter_incr [] ws)) = set ws \<and>
   (\<forall>a. map_of (foldl counter_incr [] ws) a = (if a \<in> set ws then Some (count_list ws a) else None)) \<and>
   (\<forall>a\<in>set ws. \<forall>b\<in>set ws.
      index_of (map fst (foldl counter_incr [] ws)) a < index_of (map fst (foldl counter_incr [] ws)) b
      \<longleftrightarrow> index_of ws a < index_of ws b)"
proof (induction ws rule: rev_induct)
  case Nil
  show ?case by simp
next
  case (snoc w ws)
  define m where "m = foldl counter_incr [] ws"
  from snoc have d: "distinct (map fst m)" and s: "set (map fst m) = set ws"
    and v: "\<And>a. map_of m a = (if a \<in> set ws then Some (count_list ws a) else None)"
    and o: "\<And>a b. a \<in> set ws \<Longrightarrow> b \<in> set ws \<Longrightarrow>
        index_of (map fst m) a < index_of (map fst m) b \<longleftrightarrow> index_of ws a < index_of ws b"
    unfolding m_def by blast+
  have f: "foldl counter_incr [] (ws @ [w]) = counter_incr m w" by (simp add: m_def)
  have k: "map fst (counter_incr m w) = (if w \<in> set ws then map fst m else map fst m @ [w])"
    using s by (simp add: counter_incr_fst)
  have d': "distinct (map fst (counter_incr m w))" using d s k by auto
  have s': "set (map fst (counter_incr m w)) = set (ws @ [w])" using s k by auto
  have v': "map_of (counter_incr m w) a =
      (if a \<in> set (ws @ [w]) then Some (count_list (ws @ [w]) a) else None)" for a
    using v by (auto simp: counter_incr_map_of [OF d])
  have len: "length (map fst m) \<le> index_of (map fst m) w" if "w \<notin> set ws"
    using that s index_of_less [of "map fst m" w] by auto
  have o': "index_of (map fst (counter_incr m w)) a < index_of (map fst (counter_incr m w)) b
      \<longleftrightarrow> index_of (ws @ [w]) a < index_of (ws @ [w]) b"
    if "a \<in> set (ws @ [w])" "b \<in> set (ws @ [w])" for a b
  proof (cases "w \<in> set ws")
    case True
    with that have "a \<in> set ws" "b \<in> set ws" by auto
    with True o [of a b] k show ?thesis by (simp add: index_of_append)
  next
    case False
    have la: "index_of (map fst m) x < length (map fst m)" if "x \<in> set ws" for x
      using that s index_of_less [of "map fst m" x] by auto
    have lw: "index_of ws x < length ws" if "x \<in> set ws" for x
      using that index_of_less [of ws x] by auto
    from False k have k': "map fst (counter_incr m w) = map fst m @ [w]" by simp
    show ?thesis
    proof (cases "a \<in> set ws")
      case a: True
      show ?thesis
      proof (cases "b \<in> set ws")
        case True
        with a o [of a b] s show ?thesis unfolding k' by (simp add: index_of_append)
      next
        case False
        with that have "b = w" by simp
        with a False la [OF a] lw [OF a] s show ?thesis unfolding k'
          by (simp add: index_of_append)
      qed
    next
      case na: False
      with that have aw: "a = w" by simp
      show ?thesis
      proof (cases "b \<in> set ws")
        case True
        with aw na la [OF True] lw [OF True] s show ?thesis unfolding k'
          by (simp add: index_of_append)
      next
        case False
        with that have "b = w" by simp
        with aw show ?thesis by simp
      qed
    qed
  qed
  from d' s' v' o' show ?case unfolding f by blast
qed

lemma select_keywords_take:
  "select_keywords n acc S =
     acc @ take (n - length acc)
             (map fst (filter (\<lambda>(word, count). word \<notin> set common_words \<and> 1 \<le> count) S))"
proof (induction S arbitrary: acc)
  case Nil
  show ?case by simp
next
  case (Cons x S)
  obtain word count where x: "x = (word, count)" by (cases x)
  show ?case
  proof (cases "word \<notin> set common_words \<and> 1 \<le> count \<and> length acc < n")
    case True
    then obtain k where k: "n - length acc = Suc k" by (cases "n - length acc") auto
    then have "n - length (acc @ [word]) = k" by simp
    with True k x Cons.IH [of "acc @ [word]"] show ?thesis by simp
  next
    case False
    with x Cons.IH [of acc] show ?thesis by (cases "length acc < n") auto
  qed
qed


text \<open>
  Claim C7, amended. Two keywords of the result that were counted equally often are in
  the result in the order in which they were first counted, and the words are counted in
  the order of the candidate list: first the pieces between the separators of line 398,
  then the pieces between the separators of line 402, then the runs of Chinese
  characters. This is not the order of their first occurrences in the text.
\<close>

theorem keyword_tie_order:
  assumes a: "a \<in> set (extract_keywords E text)"
    and b: "b \<in> set (extract_keywords E text)"
    and eq: "count_list (counted_words E text) a = count_list (counted_words E text) b"
  shows "index_of (extract_keywords E text) a < index_of (extract_keywords E text) b
     \<longleftrightarrow> index_of (counted_words E text) a < index_of (counted_words E text) b"
proof -
  define W where "W = counted_words E text"
  define M where "M = foldl counter_incr [] W"
  define key where "key = (\<lambda>(w :: ustr, c :: nat). - int c)"
  define S where "S = sort_key key M"
  define P where "P = (\<lambda>(word :: ustr, count :: nat). word \<notin> set common_words \<and> 1 \<le> count)"
  define n where "n = get_keywords_count (length text)"
  define R where "R = take n (map fst (filter P S))"
  define c where "c = count_list W a"
  from a have nb: "py_strip E text \<noteq> []" by (auto simp: extract_keywords_def split: if_splits)
  have cw: "count_words E text [] (candidate_words E text) = M"
    by (simp add: count_words_foldl M_def W_def counted_words_def)
  have R: "extract_keywords E text = R"
    using nb
    by (simp add: extract_keywords_def extract_verified_keywords_from_text_def cw most_common_def
        select_keywords_take R_def P_def S_def key_def n_def)
  note cl = counter_of_list [of W, folded M_def]
  from cl have dM: "distinct (map fst M)" and sM: "set (map fst M) = set W"
    and vM: "\<And>x. map_of M x = (if x \<in> set W then Some (count_list W x) else None)"
    and oM: "\<And>x y. x \<in> set W \<Longrightarrow> y \<in> set W \<Longrightarrow>
        index_of (map fst M) x < index_of (map fst M) y \<longleftrightarrow> index_of W x < index_of W y"
    by blast+
  have dS: "distinct (map fst S)"
    using dM by (simp add: S_def distinct_map)
  have RS: "set R \<subseteq> fst ` set S"
    unfolding R_def by (auto dest!: in_set_takeD)
  from a b R RS have aS: "a \<in> fst ` set S" and bS: "b \<in> fst ` set S" by auto
  then have aW: "a \<in> set W" and bW: "b \<in> set W"
    using sM by (auto simp: S_def)
  from aW vM have "map_of M a = Some c" by (simp add: c_def)
  then have aM: "(a, c) \<in> set M" by (rule map_of_SomeD)
  from bW vM eq have "map_of M b = Some c" by (simp add: c_def W_def)
  then have bM: "(b, c) \<in> set M" by (rule map_of_SomeD)
  define F where "F = map fst (filter P S)"
  have dF: "distinct F" unfolding F_def using dS by (rule distinct_map_filter)
  have aR: "a \<in> set R" and bR: "b \<in> set R" using a b R by simp_all
  have aF: "a \<in> set F" and bF: "b \<in> set F"
    using aR bR unfolding R_def F_def by (auto dest!: in_set_takeD)
  have s1: "index_of R a < index_of R b \<longleftrightarrow> index_of F a < index_of F b"
    using index_of_subseq [OF subseq_take dF, of a n b] aR bR unfolding R_def F_def by simp
  have "subseq F (map fst S)" unfolding F_def by (intro subseq_map) simp
  from index_of_subseq [OF this dS aF bF]
  have s2: "index_of F a < index_of F b \<longleftrightarrow> index_of (map fst S) a < index_of (map fst S) b" .
  define T where "T = filter (\<lambda>x. key x = - int c) S"
  have st: "T = filter (\<lambda>x. key x = - int c) M"
    unfolding T_def S_def by (rule sort_key_stable)
  have aT: "a \<in> set (map fst T)" and bT: "b \<in> set (map fst T)"
    using aM bM unfolding st by (force simp: key_def)+
  have "subseq (map fst T) (map fst S)" unfolding T_def by (intro subseq_map) simp
  from index_of_subseq [OF this dS aT bT]
  have s3: "index_of (map fst T) a < index_of (map fst T) b
      \<longleftrightarrow> index_of (map fst S) a < index_of (map fst S) b" .
  have "subseq (map fst T) (map fst M)" unfolding st by (intro subseq_map) simp
  from index_of_subseq [OF this dM aT bT]
  have s4: "index_of (map fst T) a < index_of (map fst T) b
      \<longleftrightarrow> index_of (map fst M) a < index_of (map fst M) b" .
  from s1 s2 s3 s4 oM [OF aW bW] show ?thesis unfolding R W_def by simp
qed

theorem keyword_tie_order_witness:
  "asc ''c.d'' \<in> set (extract_keywords (cpython None) (asc ''aaaaaaa.bb c.d'')) \<and>
   asc ''aaaaaaa'' \<in> set (extract_keywords (cpython None) (asc ''aaaaaaa.bb c.d'')) \<and>
   count_list (counted_words (cpython None) (asc ''aaaaaaa.bb c.d'')) (asc ''c.d'')
     = count_list (counted_words (cpython None) (asc ''aaaaaaa.bb c.d'')) (asc ''aaaaaaa'') \<and>
   index_of (counted_words (cpython None) (asc ''aaaaaaa.bb c.d'')) (asc ''c.d'')
     < index_of (counted_words (cpython None) (asc ''aaaaaaa.bb c.d'')) (asc ''aaaaaaa'') \<and>
   index_of (extract_keywords (cpython None) (asc ''aaaaaaa.bb c.d'')) (asc ''c.d'')
     < index_of (extract_keywords (cpython None) (asc ''aaaaaaa.bb c.d'')) (asc ''aaaaaaa'')"
proof -
  have a: "asc ''c.d'' \<in> set (extract_keywords (cpython None) (asc ''aaaaaaa.bb c.d''))"
    by code_simp
  have b: "asc ''aaaaaaa'' \<in> set (extract_keywords (cpython None) (asc ''aaaaaaa.bb c.d''))"
    by code_simp
  have eq: "count_list (counted_words (cpython None) (asc ''aaaaaaa.bb c.d'')) (asc ''c.d'')
     = count_list (counted_words (cpython None) (asc ''aaaaaaa.bb c.d'')) (asc ''aaaaaaa'')"
    by code_simp
  have w: "index_of (counted_words (cpython None) (asc ''aaaaaaa.bb c.d'')) (asc ''c.d'')
     < index_of (counted_words (cpython None) (asc ''aaaaaaa.bb c.d'')) (asc ''aaaaaaa'')"
    by code_simp
  from keyword_tie_order [OF a b eq] a b eq w show ?thesis by blast
qed

text \<open>
  The claim as stated fails on the text \<open>aaaaaaa.bb c.d\<close>. The first list has the pieces
  \<open>aaaaaaa.bb\<close> (too long) and \<open>c.d\<close>, the second \<open>aaaaaaa\<close>, \<open>bb\<close>, \<open>c\<close> and
  \<open>d\<close>. The result is \<open>c.d\<close>, \<open>aaaaaaa\<close>: both are counted once and occur once in
  the text, \<open>c.d\<close> is first in the result, and its first occurrence in the text, at
  position 11, is after that of \<open>aaaaaaa\<close>, at position 0.
\<close>

theorem keyword_tie_order_counterexample:
  "extract_keywords (cpython None) (asc ''aaaaaaa.bb c.d'') = [asc ''c.d'', asc ''aaaaaaa''] \<and>
   count_list (counted_words (cpython None) (asc ''aaaaaaa.bb c.d'')) (asc ''c.d'') = 1 \<and>
   count_list (counted_words (cpython None) (asc ''aaaaaaa.bb c.d'')) (asc ''aaaaaaa'') = 1 \<and>
   py_count (asc ''aaaaaaa.bb c.d'') (asc ''c.d'') = 1 \<and>
   py_count (asc ''aaaaaaa.bb c.d'') (asc ''aaaaaaa'') = 1 \<and>
   py_find (asc ''aaaaaaa.bb c.d'') (asc ''c.d'') = Some 11 \<and>
   py_find (asc ''aaaaaaa.bb c.d'') (asc ''aaaaaaa'') = Some 0"
  by code_simp

lemma dropWhile_all: "(\<forall>c\<in>set (dropWhile P s). P c) \<longleftrightarrow> (\<forall>c\<in>set s. P c)"
proof
  assume a: "\<forall>c\<in>set (dropWhile P s). P c"
  have "dropWhile P s = []"
  proof (rule ccontr)
    assume n: "dropWhile P s \<noteq> []"
    then have "\<not> P (hd (dropWhile P s))" by (rule hd_dropWhile)
    moreover from n have "hd (dropWhile P s) \<in> set (dropWhile P s)" by (rule hd_in_set)
    ultimately show False using a by blast
  qed
  then show "\<forall>c\<in>set s. P c" by (simp only: dropWhile_eq_Nil_conv)
next
  assume "\<forall>c\<in>set s. P c"
  then show "\<forall>c\<in>set (dropWhile P s). P c" by (meson set_dropWhileD)
qed

lemma strip_chars_Nil: "strip_chars P s = [] \<longleftrightarrow> (\<forall>c\<in>set s. P c)"
proof -
  have "strip_chars P s = [] \<longleftrightarrow> dropWhile P (rev (dropWhile P s)) = []"
    unfolding strip_chars_def by (rule rev_is_Nil_conv)
  also have "\<dots> \<longleftrightarrow> (\<forall>c\<in>set (rev (dropWhile P s)). P c)"
    by (rule dropWhile_eq_Nil_conv)
  also have "\<dots> \<longleftrightarrow> (\<forall>c\<in>set (dropWhile P s). P c)"
    by (simp only: set_rev)
  also have "\<dots> \<longleftrightarrow> (\<forall>c\<in>set s. P c)"
    by (rule dropWhile_all)
  finally show ?thesis .
qed

lemma extract_keywords_take:
  "py_strip E text \<noteq> [] \<Longrightarrow>
   extract_keywords E text =
     take (get_keywords_count (length text))
       (map fst (filter (\<lambda>(word, count). word \<notin> set common_words \<and> 1 \<le> count)
          (sort_key (\<lambda>(w, c). - int c) (foldl counter_incr [] (counted_words E text)))))"
  by (simp add: extract_keywords_def extract_verified_keywords_from_text_def count_words_foldl
      most_common_def select_keywords_take counted_words_def)

lemma keywords_lower_bound:
  assumes nb: "py_strip E text \<noteq> []"
    and d: "distinct ws"
    and m: "\<forall>w\<in>set ws. w \<in> set (counted_words E text) \<and> w \<notin> set common_words"
  shows "min (get_keywords_count (length text)) (length ws) \<le> length (extract_keywords E text)"
proof -
  define W where "W = counted_words E text"
  define M where "M = foldl counter_incr [] W"
  define F where "F = map fst (filter (\<lambda>(word, count). word \<notin> set common_words \<and> 1 \<le> count)
          (sort_key (\<lambda>(w, c). - int c) M))"
  note cl = counter_of_list [of W, folded M_def]
  have "set ws \<subseteq> set F"
  proof
    fix w assume w: "w \<in> set ws"
    with m have wW: "w \<in> set W" and nc: "w \<notin> set common_words" by (auto simp: W_def)
    from wW cl have "map_of M w = Some (count_list W w)" by simp
    then have "(w, count_list W w) \<in> set M" by (rule map_of_SomeD)
    moreover from wW have "1 \<le> count_list W w"
      using count_list_0_iff [of W w] by (cases "count_list W w") auto
    ultimately show "w \<in> set F" using nc unfolding F_def by force
  qed
  then have "card (set ws) \<le> card (set F)" by (intro card_mono) simp_all
  with d have "length ws \<le> length F"
    using card_length [of F] by (simp add: distinct_card)
  then show ?thesis
    unfolding extract_keywords_take [OF nb] F_def M_def W_def by simp
qed

text \<open>
  Claim C4, amended. The cap is 2 for a text of 150 characters, 5 for a text of 600
  characters (600 is not below 500, and is below 1000) and 28 for a text of 25000
  characters; \<open>extract_keywords\<close> returns at most 5 keywords on a text of 600
  characters. The specification's example gives 3 for the length 600.
\<close>

theorem keywords_count_examples:
  "get_keywords_count 150 = 2 \<and> get_keywords_count 600 = 5 \<and> get_keywords_count 25000 = 28 \<and>
   (length text = 600 \<longrightarrow> length (extract_keywords E text) \<le> 5)"
proof -
  have c: "get_keywords_count 150 = 2" "get_keywords_count 600 = 5" "get_keywords_count 25000 = 28"
    by (simp_all add: get_keywords_count_def)
  have "length (extract_keywords E text) \<le> 5" if "length text = 600"
    using extract_keywords_le_count [of E "text"] that c by simp
  with c show ?thesis by simp
qed

lemma length_six_hundred: "length six_hundred_characters = 600"
  by (simp add: six_hundred_characters_def asc_def)

theorem keywords_count_examples_witness:
  "length six_hundred_characters = 600 \<and>
   length (extract_keywords (cpython None) six_hundred_characters) \<le> 5"
  using keywords_count_examples [of six_hundred_characters "cpython None"] length_six_hundred
  by simp

text \<open>
  A text of 600 characters with four keywords: the words \<open>aa\<close>, \<open>bb\<close>, \<open>cc\<close> and
  \<open>dd\<close>, then 588 times the letter \<open>x\<close>. The four words are counted whatever follows
  them.
\<close>

lemma counted_in_six_hundred:
  "\<forall>w\<in>set [asc ''aa'', asc ''bb'', asc ''cc'', asc ''dd''].
     w \<in> set (counted_words (cpython None) (asc ''aa bb cc dd x'' @ rest)) \<and> w \<notin> set common_words"
  by code_simp

lemma distinct_in_six_hundred: "distinct [asc ''aa'', asc ''bb'', asc ''cc'', asc ''dd'']"
  by code_simp

lemma not_blank_six_hundred: "py_strip (cpython None) (asc ''aa bb cc dd x'' @ rest) \<noteq> []"
  by (simp add: py_strip_def strip_chars_Nil asc_def cpython_def cpy_isspace_def)

theorem keywords_count_examples_counterexample:
  "length six_hundred_characters = 600 \<and> get_keywords_count 600 = 5 \<and>
   3 < length (extract_keywords (cpython None) six_hundred_characters)"
proof -
  have c: "get_keywords_count 600 = 5" by (simp add: get_keywords_count_def)
  have "min (get_keywords_count (length six_hundred_characters)) (length [asc ''aa'', asc ''bb'', asc ''cc'', asc ''dd''])
      \<le> length (extract_keywords (cpython None) six_hundred_characters)"
    unfolding six_hundred_characters_def
    by (rule keywords_lower_bound [OF not_blank_six_hundred distinct_in_six_hundred counted_in_six_hundred])
  then have "3 < length (extract_keywords (cpython None) six_hundred_characters)"
    unfolding length_six_hundred c by simp
  with c length_six_hundred show ?thesis by blast
qed

section \<open>Properties of the project classifier\<close>

text \<open>
  Claim C5. When the lower-cased title contains U+8D85 U+54C1 U+4E2D U+5FC3 ("super-brand
  centre") or U+8D85 U+54C1 ("super-brand"), \<open>identify_project\<close> returns the project of
  the super-brand centre, whatever the text is: the first title check comes before the
  extraction of an explicit name and before the keyword scores. The witness is the title
  of the specification, the trigger followed by \<open>V2.0\<close> and "requirements document".
\<close>

theorem identify_project_title_first:
  "py_in [0x8D85, 0x54C1, 0x4E2D, 0x5FC3] (uni_lower E title) \<or> py_in [0x8D85, 0x54C1] (uni_lower E title)
   \<Longrightarrow> identify_project E text title = [0x8D85, 0x54C1, 0x4E2D, 0x5FC3, 0x9879, 0x76EE]"
  by (simp add: identify_project_def any_in_def title_superbrand_def project_superbrand_def Let_def)

theorem identify_project_title_first_witness:
  "py_in [0x8D85, 0x54C1, 0x4E2D, 0x5FC3]
     (uni_lower (cpython None) ([0x8D85, 0x54C1, 0x4E2D, 0x5FC3] @ asc ''V2.0'' @ [0x9700, 0x6C42, 0x6587, 0x6863])) \<and>
   (\<forall>text. identify_project (cpython None) text
      ([0x8D85, 0x54C1, 0x4E2D, 0x5FC3] @ asc ''V2.0'' @ [0x9700, 0x6C42, 0x6587, 0x6863])
    = [0x8D85, 0x54C1, 0x4E2D, 0x5FC3, 0x9879, 0x76EE])"
proof -
  have h: "py_in [0x8D85, 0x54C1, 0x4E2D, 0x5FC3]
     (uni_lower (cpython None) ([0x8D85, 0x54C1, 0x4E2D, 0x5FC3] @ asc ''V2.0'' @ [0x9700, 0x6C42, 0x6587, 0x6863]))"
    by code_simp
  with identify_project_title_first [of "cpython None"] show ?thesis by blast
qed

text \<open>
  Claim C10. The title U+7535 U+5546 U+9879 U+76EE \<open>V1.0\<close> ("e-commerce project V1.0")
  passes every title check, the fourth title pattern captures "e-commerce project", no
  entry of the standardisation table occurs in it, and the suffix "project" is appended
  again: with any text, \<open>identify_project\<close> returns a name that ends in "project
  project". The tables are those of CPython, with or without \<open>jieba\<close>.
\<close>

theorem identify_project_doubled_suffix:
  "identify_project (cpython jieba) text ([0x7535, 0x5546, 0x9879, 0x76EE] @ asc ''V1.0'')
   = [0x7535, 0x5546, 0x9879, 0x76EE, 0x9879, 0x76EE]"
  by code_simp

theorem identify_project_doubled_suffix_witness:
  "identify_project (cpython None) (asc ''x'') ([0x7535, 0x5546, 0x9879, 0x76EE] @ asc ''V1.0'')
   = [0x7535, 0x5546, 0x9879, 0x76EE, 0x9879, 0x76EE]"
  using identify_project_doubled_suffix [of None "asc ''x''"] by simp

lemma infer_lists:
  "infer_title_superbrand = title_superbrand" "infer_title_finance = title_finance"
  "infer_title_org = title_org" "infer_title_merchant = title_merchant"
  "infer_title_knowledge = title_knowledge"
  "any_in infer_title_hr s \<longleftrightarrow> any_in title_hr s \<or> py_in (asc ''onboard'') s"
  by (auto simp: infer_title_superbrand_def title_superbrand_def infer_title_finance_def title_finance_def
     infer_title_org_def title_org_def infer_title_merchant_def title_merchant_def
     infer_title_knowledge_def title_knowledge_def infer_title_hr_def title_hr_def any_in_def)

lemma infer_eq:
  assumes "\<not> any_in title_superbrand (uni_lower E title)" "\<not> any_in title_finance (uni_lower E title)"
   "\<not> any_in title_hr (uni_lower E title)" "\<not> any_in title_org (uni_lower E title)"
   "\<not> any_in title_merchant (uni_lower E title)" "\<not> any_in title_knowledge (uni_lower E title)"
   "\<not> py_in (asc ''onboard'') (uni_lower E title)"
  shows "infer_project_from_content E t title = infer_project_without_title_checks E t title"
  using assms by (simp add: infer_project_from_content_def infer_project_without_title_checks_def infer_lists Let_def)

text \<open>
  Claim C9, amended. The second copy of the title checks is not the first: its third
  list has the word \<open>onboard\<close>. When the lower-cased title does not contain
  \<open>onboard\<close>, \<open>identify_project\<close> returns what its variant without the second copy
  returns. With the title \<open>onboard\<close> and the text \<open>x\<close> the two differ: the second
  copy answers "human resources", the variant goes on to the keywords and answers
  "technical platform".
\<close>

theorem identify_project_duplicate_checks:
  assumes "\<not> py_in (asc ''onboard'') (uni_lower E title)"
  shows "identify_project E text title = identify_project_without_duplicate E text title"
proof (cases "any_in title_superbrand (uni_lower E title) \<or> any_in title_finance (uni_lower E title) \<or>
   any_in title_hr (uni_lower E title) \<or> any_in title_org (uni_lower E title) \<or>
   any_in title_merchant (uni_lower E title) \<or> any_in title_knowledge (uni_lower E title)")
  case True
  then show ?thesis
    by (auto simp: identify_project_def identify_project_without_duplicate_def Let_def)
next
  case False
  then have "infer_project_from_content E t title = infer_project_without_title_checks E t title" for t
    using assms infer_eq by simp
  then show ?thesis
    by (simp add: identify_project_def identify_project_without_duplicate_def Let_def
        split: option.splits)
qed

theorem identify_project_duplicate_checks_witness:
  "\<not> py_in (asc ''onboard'') (uni_lower (cpython None) (asc ''notes'')) \<and>
   identify_project (cpython None) (asc ''x'') (asc ''notes'')
     = identify_project_without_duplicate (cpython None) (asc ''x'') (asc ''notes'') \<and>
   identify_project (cpython None) (asc ''x'') (asc ''notes'') = [0x6280, 0x672F, 0x5E73, 0x53F0, 0x9879, 0x76EE]"
proof -
  have h: "\<not> py_in (asc ''onboard'') (uni_lower (cpython None) (asc ''notes''))"
    by code_simp
  have v: "identify_project (cpython None) (asc ''x'') (asc ''notes'') = [0x6280, 0x672F, 0x5E73, 0x53F0, 0x9879, 0x76EE]"
    by code_simp
  from identify_project_duplicate_checks [OF h] h v show ?thesis by simp
qed

theorem identify_project_duplicate_checks_counterexample:
  "identify_project (cpython None) (asc ''x'') (asc ''onboard'')
     = [0x4EBA, 0x529B, 0x8D44, 0x6E90, 0x9879, 0x76EE] \<and>
   identify_project_without_duplicate (cpython None) (asc ''x'') (asc ''onboard'')
     = [0x6280, 0x672F, 0x5E73, 0x53F0, 0x9879, 0x76EE]"
  by code_simp

section \<open>Properties of the document type classifier\<close>

lemma keyword_score_sum:
  "keyword_score E w c t s ks =
     s + (\<Sum>k\<leftarrow>ks. py_count c (uni_lower E k)) + w * length (filter (\<lambda>k. py_in (uni_lower E k) t) ks)"
  by (induction ks arbitrary: s) (simp_all add: Let_def)

lemma score_table_filter:
  "score_table E w c t entries =
     filter (\<lambda>(n, s). 0 < s) (map (\<lambda>(n, ks). (n, keyword_score E w c t 0 ks)) entries)"
  by (induction entries) (auto simp: Let_def)

lemma max_from_first_max:
  "\<exists>pre post. b # xs = pre @ max_from b xs # post \<and>
     (\<forall>x\<in>set pre. snd x < snd (max_from b xs)) \<and> (\<forall>x\<in>set post. snd x \<le> snd (max_from b xs))"
proof (induction xs arbitrary: b)
  case Nil
  have "[b] = [] @ b # [] \<and> (\<forall>x\<in>set []. snd x < snd b) \<and> (\<forall>x\<in>set []. snd x \<le> snd b)"
    by simp
  then show ?case unfolding max_from.simps by blast
next
  case (Cons x xs)
  note IH = Cons.IH
  show ?case
  proof (cases "snd b < snd x")
    case True
    then have m: "max_from b (x # xs) = max_from x xs" by simp
    define r where "r = max_from x xs"
    from IH [of x] obtain pre post where
      s: "x # xs = pre @ r # post"
      and l: "\<forall>y\<in>set pre. snd y < snd r"
      and g: "\<forall>y\<in>set post. snd y \<le> snd r" unfolding r_def by blast
    have "x \<in> set (pre @ r # post)" using s by (metis list.set_intros(1))
    with l g have "snd x \<le> snd r" by auto
    with True have "snd b < snd r" by simp
    with s l g have "b # x # xs = (b # pre) @ r # post \<and>
        (\<forall>y\<in>set (b # pre). snd y < snd r) \<and> (\<forall>y\<in>set post. snd y \<le> snd r)" by simp
    then show ?thesis unfolding m r_def [symmetric] by blast
  next
    case False
    then have m: "max_from b (x # xs) = max_from b xs" by simp
    define r where "r = max_from b xs"
    from IH [of b] obtain pre post where
      s: "b # xs = pre @ r # post"
      and l: "\<forall>y\<in>set pre. snd y < snd r"
      and g: "\<forall>y\<in>set post. snd y \<le> snd r" unfolding r_def by blast
    show ?thesis
    proof (cases pre)
      case Nil
      with s have e: "r = b" and pe: "post = xs" by simp_all
      from g False have "b # x # xs = [] @ r # (x # xs) \<and>
        (\<forall>y\<in>set []. snd y < snd r) \<and> (\<forall>y\<in>set (x # xs). snd y \<le> snd r)"
        unfolding e pe by auto
      then show ?thesis unfolding m r_def [symmetric] by blast
    next
      case (Cons p pre')
      with s have p: "p = b" and s': "xs = pre' @ r # post" by simp_all
      from l Cons p have "snd b < snd r" by simp
      with False have "snd x < snd r" by simp
      with s' l g Cons p have "b # x # xs = (b # x # pre') @ r # post \<and>
        (\<forall>y\<in>set (b # x # pre'). snd y < snd r) \<and> (\<forall>y\<in>set post. snd y \<le> snd r)" by auto
      then show ?thesis unfolding m r_def [symmetric] by blast
    qed
  qed
qed

lemma dict_max_first_max:
  assumes "dict_max d = Some r"
  shows "\<exists>pre post. d = pre @ r # post \<and> (\<forall>x\<in>set pre. snd x < snd r) \<and> (\<forall>x\<in>set post. snd x \<le> snd r)"
proof (cases d)
  case Nil
  with assms show ?thesis by (simp add: dict_max_def)
next
  case (Cons b xs)
  with assms have "r = max_from b xs" by (simp add: dict_max_def)
  with max_from_first_max [of b xs] Cons show ?thesis by simp
qed

lemma filter_split_lift:
  assumes "filter P xs = pre' @ r # post'"
  shows "\<exists>pre post. xs = pre @ r # post \<and> filter P pre = pre' \<and> filter P post = post'"
  using assms
proof (induction xs arbitrary: pre')
  case Nil
  then show ?case by simp
next
  case (Cons x xs)
  note IH = Cons.IH and prems = Cons.prems
  show ?case
  proof (cases "P x")
    case False
    with prems have "filter P xs = pre' @ r # post'" by simp
    from IH [OF this] obtain pre post where
      "xs = pre @ r # post" "filter P pre = pre'" "filter P post = post'" by blast
    with False have "x # xs = (x # pre) @ r # post \<and> filter P (x # pre) = pre' \<and> filter P post = post'"
      by simp
    then show ?thesis by blast
  next
    case True
    show ?thesis
    proof (cases pre')
      case Nil
      with True prems have "x = r" "filter P xs = post'" by simp_all
      then have "x # xs = [] @ r # xs \<and> filter P [] = pre' \<and> filter P xs = post'"
        using Nil by simp
      then show ?thesis by blast
    next
      case (Cons p ps)
      with True prems have px: "p = x" and "filter P xs = ps @ r # post'" by simp_all
      from IH [OF this(2)] obtain pre post where
        "xs = pre @ r # post" "filter P pre = ps" "filter P post = post'" by blast
      with True Cons px have "x # xs = (x # pre) @ r # post \<and> filter P (x # pre) = pre' \<and> filter P post = post'"
        by simp
      then show ?thesis by blast
    qed
  qed
qed


lemma keyword_score_spec:
  "keyword_score E 5 (uni_lower E (title @ 32 # text)) (uni_lower E title) 0 ks
   = spec_bucket_score E text title ks"
  by (simp add: keyword_score_sum spec_bucket_score_def)

lemma first_max_of_positive:
  fixes f :: "ustr \<times> 'b \<Rightarrow> nat"
  assumes d: "dict_max (filter (\<lambda>(n, s). 0 < s) (map (\<lambda>e. (fst e, f e)) es)) = Some r"
  shows "\<exists>pre w post. es = pre @ w # post \<and> fst r = fst w \<and>
     (\<forall>e\<in>set pre. f e < f w) \<and> (\<forall>e\<in>set post. f e \<le> f w)"
proof -
  let ?P = "\<lambda>(n :: ustr, s :: nat). 0 < s"
  let ?g = "\<lambda>e. (fst e, f e)"
  from dict_max_first_max [OF d] obtain pre' post' where
    s': "filter ?P (map ?g es) = pre' @ r # post'"
    and l': "\<forall>x\<in>set pre'. snd x < snd r" and g': "\<forall>x\<in>set post'. snd x \<le> snd r" by blast
  from filter_split_lift [OF s'] obtain pre post where
    s: "map ?g es = pre @ r # post" and fl: "filter ?P pre = pre'" and fr: "filter ?P post = post'"
    by blast
  have "r \<in> set (filter ?P (map ?g es))" using s' by simp
  then have pos: "0 < snd r" by auto
  have l: "\<forall>x\<in>set pre. snd x < snd r"
  proof
    fix x assume x: "x \<in> set pre"
    show "snd x < snd r"
    proof (cases "?P x")
      case True
      with x fl have "x \<in> set pre'" by auto
      with l' show ?thesis by simp
    next
      case False
      then have "snd x = 0" by (cases x) simp
      with pos show ?thesis by simp
    qed
  qed
  have g: "\<forall>x\<in>set post. snd x \<le> snd r"
  proof
    fix x assume x: "x \<in> set post"
    show "snd x \<le> snd r"
    proof (cases "?P x")
      case True
      with x fr have "x \<in> set post'" by auto
      with g' show ?thesis by simp
    next
      case False
      then have "snd x = 0" by (cases x) simp
      then show ?thesis by simp
    qed
  qed
  from s obtain dpre w dpost where
    e: "es = dpre @ w # dpost" and mp: "map ?g dpre = pre" and mw: "?g w = r" and mq: "map ?g dpost = post"
    by (auto simp: map_eq_append_conv map_eq_Cons_conv)
  from mw have fw: "fst r = fst w" and sw: "snd r = f w" by auto
  have "\<forall>e\<in>set dpre. f e < f w" using l mp sw by auto
  moreover have "\<forall>e\<in>set dpost. f e \<le> f w" using g mq sw by auto
  ultimately show ?thesis using e fw by blast
qed

text \<open>
  Claim C6. \<open>classify_document_type\<close> gives each of the six buckets the score of the
  specification (occurrences of the trigger keywords in the lower-cased title and text,
  plus 5 for each trigger keyword in the lower-cased title) and returns a bucket of the
  greatest score, the first declared among those: every bucket declared earlier has a
  strictly smaller score, every bucket declared later has a score that is not greater.
  When all six scores are zero it returns "knowledge document",
  U+77E5 U+8BC6 U+7C7B U+6587 U+6863.
\<close>

theorem classify_document_type_max_score:
  "(if \<forall>bucket\<in>set document_types. spec_bucket_score E text title (snd bucket) = 0
    then classify_document_type E text title = [0x77E5, 0x8BC6, 0x7C7B, 0x6587, 0x6863]
    else \<exists>earlier winner later.
           document_types = earlier @ winner # later \<and>
           classify_document_type E text title = fst winner \<and>
           (\<forall>bucket\<in>set earlier.
              spec_bucket_score E text title (snd bucket) < spec_bucket_score E text title (snd winner)) \<and>
           (\<forall>bucket\<in>set later.
              spec_bucket_score E text title (snd bucket) \<le> spec_bucket_score E text title (snd winner)))"
proof -
  let ?f = "\<lambda>bucket. spec_bucket_score E text title (snd bucket)"
  let ?d = "score_table E 5 (uni_lower E (title @ [32] @ text)) (uni_lower E title) document_types"
  have tbl: "?d = filter (\<lambda>(n, s). 0 < s) (map (\<lambda>e. (fst e, ?f e)) document_types)"
    by (simp add: score_table_filter keyword_score_spec case_prod_unfold)
  have cls: "classify_document_type E text title =
      (case dict_max ?d of Some (best_type, max_score) \<Rightarrow> best_type | None \<Rightarrow> doctype_knowledge)"
    by (simp add: classify_document_type_def Let_def)
  show ?thesis
  proof (cases "\<forall>bucket\<in>set document_types. ?f bucket = 0")
    case True
    then have "?d = []" unfolding tbl by (auto simp: filter_empty_conv)
    then have "classify_document_type E text title = doctype_knowledge"
      unfolding cls by (simp add: dict_max_def)
    with True show ?thesis by (simp add: doctype_knowledge_def)
  next
    case False
    then have "?d \<noteq> []" unfolding tbl by (auto simp: filter_empty_conv)
    then obtain r where r: "dict_max ?d = Some r"
      by (cases ?d) (simp_all add: dict_max_def)
    then have c: "classify_document_type E text title = fst r"
      unfolding cls by (simp add: case_prod_unfold)
    from r have "dict_max (filter (\<lambda>(n, s). 0 < s) (map (\<lambda>e. (fst e, ?f e)) document_types)) = Some r"
      unfolding tbl .
    from first_max_of_positive [OF this] c False show ?thesis by auto
  qed
qed

text \<open>
  The example of the specification: the title "test plan" and a text with "test case"
  five times give "testing document", U+6D4B U+8BD5 U+7C7B U+6587 U+6863.
\<close>

theorem classify_document_type_max_score_witness:
  "\<not> (\<forall>bucket\<in>set document_types.
        spec_bucket_score (cpython None) test_case_text test_plan_title (snd bucket) = 0) \<and>
   classify_document_type (cpython None) test_case_text test_plan_title
     = [0x6D4B, 0x8BD5, 0x7C7B, 0x6587, 0x6863] \<and>
   (\<exists>earlier winner later.
      document_types = earlier @ winner # later \<and>
      classify_document_type (cpython None) test_case_text test_plan_title = fst winner \<and>
      (\<forall>bucket\<in>set earlier.
         spec_bucket_score (cpython None) test_case_text test_plan_title (snd bucket)
         < spec_bucket_score (cpython None) test_case_text test_plan_title (snd winner)) \<and>
      (\<forall>bucket\<in>set later.
         spec_bucket_score (cpython None) test_case_text test_plan_title (snd bucket)
         \<le> spec_bucket_score (cpython None) test_case_text test_plan_title (snd winner)))"
proof -
  have h: "\<not> (\<forall>bucket\<in>set document_types.
        spec_bucket_score (cpython None) test_case_text test_plan_title (snd bucket) = 0)"
    by code_simp
  have v: "classify_document_type (cpython None) test_case_text test_plan_title
     = [0x6D4B, 0x8BD5, 0x7C7B, 0x6587, 0x6863]"
    by code_simp
  from classify_document_type_max_score [of "cpython None" test_case_text test_plan_title] h
  have "\<exists>earlier winner later.
      document_types = earlier @ winner # later \<and>
      classify_document_type (cpython None) test_case_text test_plan_title = fst winner \<and>
      (\<forall>bucket\<in>set earlier.
         spec_bucket_score (cpython None) test_case_text test_plan_title (snd bucket)
         < spec_bucket_score (cpython None) test_case_text test_plan_title (snd winner)) \<and>
      (\<forall>bucket\<in>set later.
         spec_bucket_score (cpython None) test_case_text test_plan_title (snd bucket)
         \<le> spec_bucket_score (cpython None) test_case_text test_plan_title (snd winner))"
    by (simp only: if_False)
  with h v show ?thesis by blast
qed

section \<open>Properties of the orchestrator and of the summary generator\<close>

text \<open>
  Claim C1. For every title and every text that is empty or whitespace only,
  \<open>process_document\<close> returns the row formatted from the project "unknown project"
  (U+672A U+77E5 U+9879 U+76EE), the type "knowledge document", no keyword and the summary
  "the document is empty" (U+6587 U+6863 U+5185 U+5BB9 U+4E3A U+7A7A), and calls none of the
  four components. \<open>format_output\<close> writes the type and the keywords into one column,
  here the type followed by \<open>; \<close>.
\<close>

theorem process_document_blank:
  "py_strip E text = [] \<Longrightarrow>
   process_document E title text =
     (format_output title [0x672A, 0x77E5, 0x9879, 0x76EE] [0x77E5, 0x8BC6, 0x7C7B, 0x6587, 0x6863] []
        [0x6587, 0x6863, 0x5185, 0x5BB9, 0x4E3A, 0x7A7A], []) \<and>
   fst (process_document E title text) =
     \<lparr> row_title = title, row_project = [0x672A, 0x77E5, 0x9879, 0x76EE],
       row_keywords = [0x77E5, 0x8BC6, 0x7C7B, 0x6587, 0x6863] @ asc ''; '',
       row_summary = [0x6587, 0x6863, 0x5185, 0x5BB9, 0x4E3A, 0x7A7A] \<rparr>"
  by (simp add: process_document_def format_output_def project_unknown_def doctype_knowledge_def
      empty_document_summary_def)

theorem process_document_blank_witness:
  "py_strip (cpython None) [32, 9, 10, 0x3000] = [] \<and>
   process_document (cpython None) (asc ''memo'') [32, 9, 10, 0x3000] =
     (\<lparr> row_title = asc ''memo'', row_project = [0x672A, 0x77E5, 0x9879, 0x76EE],
        row_keywords = [0x77E5, 0x8BC6, 0x7C7B, 0x6587, 0x6863] @ asc ''; '',
        row_summary = [0x6587, 0x6863, 0x5185, 0x5BB9, 0x4E3A, 0x7A7A] \<rparr>, [])"
proof -
  have h: "py_strip (cpython None) [32, 9, 10, 0x3000] = []"
    by code_simp
  from process_document_blank [OF h, of "asc ''memo''"] h show ?thesis
    by (simp add: format_output_def)
qed

lemma score_paragraphs_map:
  "score_paragraphs E ps =
     map (\<lambda>p. (p, importance_score E p)) (filter (\<lambda>p. 30 < length p \<and> 0 < importance_score E p) ps)"
  by (induction ps) (simp_all add: Let_def)

text \<open>
  Claim C8, amended. With \<open>jieba\<close> available and a text that is not blank, when the
  loop has put no paragraph into any of the five lists, the content list is the top 8 of
  a ranking of the candidates, where the candidates are those of the first 15 paragraphs
  that have more than 30 characters and at least one hit against the 27 important
  keywords; the ranking is by hits from high to low, and the candidates of one score are
  in it in the order of the paragraphs. When there is a candidate, the summary is the
  part "main content" with the first four of the ranking. A paragraph without a hit is no
  candidate, which the claim as stated does not say.
\<close>

theorem unbucketed_content_ranked:
  assumes jieba: "HAS_JIEBA E" and nb: "py_strip E text \<noteq> []"
    and "background_info (bucket_paragraphs E empty_buckets (paragraphs_of E text)) = []"
    and "objective_info (bucket_paragraphs E empty_buckets (paragraphs_of E text)) = []"
    and "content_info (bucket_paragraphs E empty_buckets (paragraphs_of E text)) = []"
    and "solution_info (bucket_paragraphs E empty_buckets (paragraphs_of E text)) = []"
    and "result_info (bucket_paragraphs E empty_buckets (paragraphs_of E text)) = []"
  shows "\<exists>ranked.
     content_info (structured_buckets E (paragraphs_of E text)) = take 8 ranked \<and>
     sorted (map (\<lambda>para. - int (importance_score E para)) ranked) \<and>
     (\<forall>k. filter (\<lambda>para. importance_score E para = k) ranked =
          filter (\<lambda>para. importance_score E para = k)
            (filter (\<lambda>para. 30 < length para \<and> 0 < importance_score E para)
               (take 15 (paragraphs_of E text)))) \<and>
     (ranked \<noteq> [] \<longrightarrow>
        generate_content_summary E text title =
          [0x3010, 0x4E3B, 0x8981, 0x5185, 0x5BB9, 0x3011] @ py_join [32] (take 4 ranked))"
proof -
  let ?ps = "paragraphs_of E text"
  let ?cand = "filter (\<lambda>para. 30 < length para \<and> 0 < importance_score E para) (take 15 ?ps)"
  let ?g = "\<lambda>p. (p, importance_score E p)"
  let ?key = "\<lambda>(para :: ustr, score :: nat). - int score"
  let ?S = "sort_key ?key (map ?g ?cand)"
  have sb: "structured_buckets E ?ps = empty_buckets\<lparr>content_info := map fst (take 8 ?S)\<rparr>"
    using assms(3-7)
    by (simp add: structured_buckets_def Let_def score_paragraphs_map empty_buckets_def)
  then have c: "content_info (structured_buckets E ?ps) = take 8 (map fst ?S)"
    by (simp add: take_map)
  have el: "snd x = importance_score E (fst x)" if "x \<in> set ?S" for x
    using that by auto
  have k: "map (\<lambda>para. - int (importance_score E para)) (map fst ?S) = map ?key ?S"
    using el by (auto simp: case_prod_unfold)
  have s: "sorted (map (\<lambda>para. - int (importance_score E para)) (map fst ?S))"
    unfolding k by (rule sorted_sort_key)
  have t: "filter (\<lambda>para. importance_score E para = n) (map fst ?S)
      = filter (\<lambda>para. importance_score E para = n) ?cand" for n
  proof -
    have "filter (\<lambda>para. importance_score E para = n) (map fst ?S)
        = map fst (filter (\<lambda>x. importance_score E (fst x) = n) ?S)"
      by (simp add: filter_map comp_def)
    also have "filter (\<lambda>x. importance_score E (fst x) = n) ?S = filter (\<lambda>x. ?key x = - int n) ?S"
      using el by (intro filter_cong) (auto simp: case_prod_unfold)
    also have "\<dots> = filter (\<lambda>x. ?key x = - int n) (map ?g ?cand)"
      by (rule sort_key_stable)
    also have "map fst \<dots> = filter (\<lambda>para. importance_score E para = n) ?cand"
      by (simp add: filter_map comp_def)
    finally show ?thesis .
  qed
  have g: "generate_content_summary E text title =
      [0x3010, 0x4E3B, 0x8981, 0x5185, 0x5BB9, 0x3011] @ py_join [32] (take 4 (map fst ?S))"
    if "map fst ?S \<noteq> []"
  proof -
    from that have "take 8 (map fst ?S) \<noteq> []" by (cases "map fst ?S") simp_all
    then show ?thesis
      using jieba nb sb
      by (simp add: generate_content_summary_def Let_def summary_part_def empty_buckets_def
          take_map [symmetric] min_def)
  qed
  from c s t g show ?thesis
    by (intro exI [of _ "map fst ?S"]) simp
qed

theorem unbucketed_content_ranked_witness:
  "HAS_JIEBA cpython_with_jieba \<and> py_strip cpython_with_jieba scored_text \<noteq> [] \<and>
   paragraphs_of cpython_with_jieba scored_text = scored_example \<and>
   bucket_paragraphs cpython_with_jieba empty_buckets (paragraphs_of cpython_with_jieba scored_text)
     = empty_buckets \<and>
   content_info (structured_buckets cpython_with_jieba (paragraphs_of cpython_with_jieba scored_text))
     = [scored_example ! 1, scored_example ! 0, scored_example ! 3] \<and>
   (\<exists>ranked.
      content_info (structured_buckets cpython_with_jieba (paragraphs_of cpython_with_jieba scored_text))
        = take 8 ranked \<and>
      sorted (map (\<lambda>para. - int (importance_score cpython_with_jieba para)) ranked) \<and>
      (\<forall>k. filter (\<lambda>para. importance_score cpython_with_jieba para = k) ranked =
           filter (\<lambda>para. importance_score cpython_with_jieba para = k)
             (filter (\<lambda>para. 30 < length para \<and> 0 < importance_score cpython_with_jieba para)
                (take 15 (paragraphs_of cpython_with_jieba scored_text)))) \<and>
      (ranked \<noteq> [] \<longrightarrow>
         generate_content_summary cpython_with_jieba scored_text (asc ''memo'') =
           [0x3010, 0x4E3B, 0x8981, 0x5185, 0x5BB9, 0x3011] @ py_join [32] (take 4 ranked)))"
proof -
  have j: "HAS_JIEBA cpython_with_jieba"
    by code_simp
  have nb: "py_strip cpython_with_jieba scored_text \<noteq> []"
    by code_simp
  have p: "paragraphs_of cpython_with_jieba scored_text = scored_example"
    by code_simp
  have b: "bucket_paragraphs cpython_with_jieba empty_buckets (paragraphs_of cpython_with_jieba scored_text)
      = empty_buckets"
    by code_simp
  have h1: "background_info (bucket_paragraphs cpython_with_jieba empty_buckets
        (paragraphs_of cpython_with_jieba scored_text)) = []"
    and h2: "objective_info (bucket_paragraphs cpython_with_jieba empty_buckets
        (paragraphs_of cpython_with_jieba scored_text)) = []"
    and h3: "content_info (bucket_paragraphs cpython_with_jieba empty_buckets
        (paragraphs_of cpython_with_jieba scored_text)) = []"
    and h4: "solution_info (bucket_paragraphs cpython_with_jieba empty_buckets
        (paragraphs_of cpython_with_jieba scored_text)) = []"
    and h5: "result_info (bucket_paragraphs cpython_with_jieba empty_buckets
        (paragraphs_of cpython_with_jieba scored_text)) = []"
    unfolding b by (simp_all add: empty_buckets_def)
  have v: "content_info (structured_buckets cpython_with_jieba (paragraphs_of cpython_with_jieba scored_text))
      = [scored_example ! 1, scored_example ! 0, scored_example ! 3]"
    by code_simp
  from unbucketed_content_ranked [OF j nb h1 h2 h3 h4 h5, of "asc ''memo''"] j nb p b v
  show ?thesis by blast
qed

text \<open>
  The claim as stated fails on a document of one paragraph of 31 letters: no list of the
  loop takes it, it has more than 30 characters, and the ranking of the specification
  keeps it, with no hit; the code leaves the content list empty, and the summary is the
  overview of the whole document instead of a part "main content".
\<close>

theorem unbucketed_content_ranked_counterexample:
  "HAS_JIEBA cpython_with_jieba \<and>
   paragraphs_of cpython_with_jieba plain_paragraph = [plain_paragraph] \<and>
   bucket_paragraphs cpython_with_jieba empty_buckets [plain_paragraph] = empty_buckets \<and>
   spec_content_bucket cpython_with_jieba [plain_paragraph] = [plain_paragraph] \<and>
   content_info (structured_buckets cpython_with_jieba [plain_paragraph]) = [] \<and>
   generate_content_summary cpython_with_jieba plain_paragraph (asc ''memo'')
     = [0x3010, 0x6587, 0x6863, 0x6982, 0x8FF0, 0x3011, 0x672C, 0x6587, 0x6863, 0x4E3B, 0x8981,
        0x9610, 0x8FF0, 0x4E86] @ asc ''memo'' @
       [0x7684, 0x76F8, 0x5173, 0x5185, 0x5BB9, 0xFF0C, 0x5305, 0x62EC, 0xFF1A] @ plain_paragraph"
  by code_simp

end
